theory Spec2Isabelle
  imports Main
begin

section \<open>Data model\<close>

text \<open>
  The routing stamp \<open>Meta = { entity: string; eventType: string }\<close> of the package.
\<close>

record meta =
  entity :: string
  eventType :: string

text \<open>
  An event is a payload with the mandatory fields \<open>id\<close> and \<open>meta\<close>
  (\<open>EventType extends { id: string; meta: Meta }\<close>). The field \<open>id\<close> is called
  \<open>ev_id\<close> here, since \<open>id\<close> is the identity function of HOL.
\<close>

record 'p event =
  ev_id :: string
  ev_meta :: meta
  ev_payload :: 'p

text \<open>
  The handler's argument \<open>event: EventType | [EventType, ...any]\<close>: one event, or a
  cluster whose first element is an event and whose other elements are of any type \<open>'x\<close>.
\<close>

datatype ('p, 'x) event_in =
  Single "'p event"
| Cluster "'p event" "'x list"

text \<open>
  What the handler reads of an entity: \<open>EntityType & { id?: string, deleted?: boolean }\<close>.
  \<open>ent_id\<close> is \<open>None\<close> when the field is absent; \<open>deleted\<close> is the truthiness of
  the field \<open>deleted\<close> (absent is falsy); everything else is the domain's \<open>body\<close>.
\<close>

record 'a entity_rec =
  ent_id :: "string option"
  deleted :: bool
  body :: 'a

text \<open>
  Values that the code throws: what the store rejects with (\<open>NotFound\<close>, or any other
  failure); the \<open>TypeError\<close>s of calling what is not a function, of
  \<open>__defineGetter__\<close> with a getter that is not callable, and of reading a property of
  \<open>undefined\<close>; and \<open>new Error(message)\<close>, which is also what a transition or a side
  handler throws (\<open>throw new Error('Invalid stock')\<close> in the tests).

  \<open>Outside_declared_types\<close> is not a value that is thrown. It marks a cycle in which the
  code calls a function of the caller, or the store, with arguments outside their declared
  types: a transition or a side handler called by an inherited member or as a \<open>then\<close>,
  a side handler given something that is not an entity, the store's \<open>put\<close> given a
  function as id. What happens then is not told by the functions as they are typed here, and
  nothing is stated of such a cycle.
\<close>

datatype error =
  NotFound
| StoreFailure string
| NotAFunction
| GetterNotCallable
| PropertyOfUndefined
| Error string
| Outside_declared_types

text \<open>
  The store of \<open>@taterer/persist\<close> is an external collaborator, taken as a parameter:
  three operations over a store state \<open>'s\<close>. A rejected promise is \<open>Inl\<close>; \<open>get\<close>
  may resolve to \<open>undefined\<close> (\<open>None\<close>); a rejected \<open>put\<close> or \<open>remove\<close> leaves
  no new state (single-record operations are atomic).
\<close>

record ('s, 'e) persistence =
  p_get :: "'s \<Rightarrow> string \<Rightarrow> string \<Rightarrow> error + 'e option"
  p_put :: "'s \<Rightarrow> string \<Rightarrow> string \<Rightarrow> 'e \<Rightarrow> error + 's"
  p_remove :: "'s \<Rightarrow> string \<Rightarrow> string \<Rightarrow> error + 's"

text \<open>The writes a cycle has completed on the store, in order.\<close>

datatype 'e store_write =
  Put string string 'e
| Remove string string

type_synonym ('a, 'p, 'x) transition =
  "'a entity_rec option \<Rightarrow> ('p, 'x) event_in \<Rightarrow> error + 'a entity_rec"

type_synonym ('s, 'a, 'p, 'x) side_handler =
  "'s \<Rightarrow> 'a entity_rec option \<Rightarrow> ('p, 'x) event_in \<Rightarrow> 'a entity_rec \<Rightarrow> error + 'a entity_rec"

text \<open>
  What a call of a function found under \<open>eventHandlers[eventType]\<close> or
  \<open>sideHandlers[eventType]\<close> can give back. A function of the caller gives an entity. A
  member that the table inherits from \<open>Object.prototype\<close> gives the current entity
  itself, the empty object \<open>{}\<close>, a primitive (a string or a boolean), \<open>undefined\<close>, or
  the table on which it was called.
\<close>

datatype table_kind =
  Event_handlers
| Side_handlers

datatype 'a handled =
  Entity "'a entity_rec"
| Empty_object
| Primitive
| Undefined_value
| Table table_kind

type_synonym ('s, 'a) outcome =
  "(error + ('a handled \<times> meta)) \<times> 's \<times> 'a entity_rec store_write list"

section \<open>Property lookup on a table\<close>

text \<open>
  The tables are plain objects, as the object literals of the tests are, so
  \<open>eventHandlers[eventType]\<close> and \<open>sideHandlers[eventType]\<close> give the table's own property
  of that name when it has one, else the member of that name of \<open>Object.prototype\<close>,
  else \<open>undefined\<close>. These are all the string-named members of \<open>Object.prototype\<close>. An
  own key named \<open>__proto__\<close> is not considered.
\<close>

datatype proto_member =
  P_constructor
| P_toString
| P_toLocaleString
| P_valueOf
| P_hasOwnProperty
| P_isPrototypeOf
| P_propertyIsEnumerable
| P_defineGetter
| P_defineSetter
| P_lookupGetter
| P_lookupSetter
| P_proto

fun member_name :: "proto_member \<Rightarrow> string" where
  "member_name P_constructor = ''constructor''"
| "member_name P_toString = ''toString''"
| "member_name P_toLocaleString = ''toLocaleString''"
| "member_name P_valueOf = ''valueOf''"
| "member_name P_hasOwnProperty = ''hasOwnProperty''"
| "member_name P_isPrototypeOf = ''isPrototypeOf''"
| "member_name P_propertyIsEnumerable = ''propertyIsEnumerable''"
| "member_name P_defineGetter = ''__defineGetter__''"
| "member_name P_defineSetter = ''__defineSetter__''"
| "member_name P_lookupGetter = ''__lookupGetter__''"
| "member_name P_lookupSetter = ''__lookupSetter__''"
| "member_name P_proto = ''__proto__''"

definition proto_members :: "proto_member list" where
  "proto_members =
     [P_constructor, P_toString, P_toLocaleString, P_valueOf, P_hasOwnProperty,
      P_isPrototypeOf, P_propertyIsEnumerable, P_defineGetter, P_defineSetter,
      P_lookupGetter, P_lookupSetter, P_proto]"

definition object_prototype :: "string \<Rightarrow> proto_member option" where
  "object_prototype name = List.find (\<lambda>m. member_name m = name) proto_members"

datatype 'h property =
  Own 'h
| Inherited proto_member
| Missing

definition has_own :: "(string \<rightharpoonup> 'h) \<Rightarrow> string \<Rightarrow> bool" where
  "has_own tbl name = (case tbl name of None \<Rightarrow> False | Some h \<Rightarrow> True)"

definition property_of :: "(string \<rightharpoonup> 'h) \<Rightarrow> string \<Rightarrow> 'h property" where
  "property_of tbl name =
     (case tbl name of
        Some h \<Rightarrow> Own h
      | None \<Rightarrow>
          (case object_prototype name of
             Some m \<Rightarrow> Inherited m
           | None \<Rightarrow> Missing))"

text \<open>
  The call \<open>table[name](currentEntity, event, ...)\<close> of an inherited member, with the
  table as \<open>this\<close>; \<open>own\<close> tells the own keys of that table.
  \<^item> \<open>constructor\<close> is \<open>Object\<close>: \<open>Object(currentEntity)\<close> is the current entity
    itself, and \<open>{}\<close> when it is \<open>undefined\<close>.
  \<^item> \<open>toString\<close> gives the string \<open>[object Object]\<close>; \<open>toLocaleString\<close> calls
    \<open>this.toString()\<close>, which is a function of the caller, called with no argument,
    when the table has an own key \<open>toString\<close>.
  \<^item> \<open>valueOf\<close> gives the table.
  \<^item> \<open>hasOwnProperty\<close>, \<open>isPrototypeOf\<close> and \<open>propertyIsEnumerable\<close> give a
    boolean.
  \<^item> \<open>__defineGetter__\<close> and \<open>__defineSetter__\<close> throw a \<open>TypeError\<close>, their second
    argument, the event, not being callable.
  \<^item> \<open>__lookupGetter__\<close> and \<open>__lookupSetter__\<close> give \<open>undefined\<close>.
  \<^item> \<open>__proto__\<close> is \<open>Object.prototype\<close>, an object: calling it is the \<open>TypeError\<close>
    of calling what is not a function.
  Entities are taken to be plain data: no field of theirs is named \<open>toString\<close>,
  \<open>valueOf\<close> or \<open>then\<close>.
\<close>

fun call_inherited ::
  "(string \<Rightarrow> bool) \<Rightarrow> table_kind \<Rightarrow> proto_member \<Rightarrow> 'a entity_rec option
     \<Rightarrow> error + 'a handled" where
  "call_inherited own k P_constructor currentEntity =
     Inr (case currentEntity of None \<Rightarrow> Empty_object | Some e \<Rightarrow> Entity e)"
| "call_inherited own k P_toString currentEntity = Inr Primitive"
| "call_inherited own k P_toLocaleString currentEntity =
     (if own ''toString'' then Inl Outside_declared_types else Inr Primitive)"
| "call_inherited own k P_valueOf currentEntity = Inr (Table k)"
| "call_inherited own k P_hasOwnProperty currentEntity = Inr Primitive"
| "call_inherited own k P_isPrototypeOf currentEntity = Inr Primitive"
| "call_inherited own k P_propertyIsEnumerable currentEntity = Inr Primitive"
| "call_inherited own k P_defineGetter currentEntity = Inl GetterNotCallable"
| "call_inherited own k P_defineSetter currentEntity = Inl GetterNotCallable"
| "call_inherited own k P_lookupGetter currentEntity = Inr Undefined_value"
| "call_inherited own k P_lookupSetter currentEntity = Inr Undefined_value"
| "call_inherited own k P_proto currentEntity = Inl NotAFunction"

section \<open>The entity event handler\<close>

text \<open>
  \<open>const eventId = Array.isArray(event) ? event[0].id : event.id\<close> and
  \<open>const eventType = Array.isArray(event) ? event[0].meta.eventType : event.meta.eventType\<close>.
\<close>

fun eventId :: "('p, 'x) event_in \<Rightarrow> string" where
  "eventId (Single e) = ev_id e"
| "eventId (Cluster e rest) = ev_id e"

fun eventType_of :: "('p, 'x) event_in \<Rightarrow> string" where
  "eventType_of (Single e) = eventType (ev_meta e)"
| "eventType_of (Cluster e rest) = eventType (ev_meta e)"

definition missing_id_message :: string where
  "missing_id_message =
     ''Cannot save entity without an id. Consider putting id explicitly in the event handler.''"

text \<open>
  The last statements of \<open>entityEventHandler\<close>, the same in both versions of the file,
  for an entity:
  \<^verbatim>\<open>
  if (handledEntity.deleted) {
    await persistence.remove(entityPersistence, { id: eventId })
  } else {
    if (!handledEntity.id) { throw new Error('Cannot save entity without an id. ...') }
    await persistence.put(entityPersistence, { id: handledEntity.id }, handledEntity)
  }
  return { ...handledEntity, meta: { entity: entityPersistence, eventType } }
  \<close>
\<close>

definition persist_step ::
  "('s, 'a entity_rec) persistence \<Rightarrow> string \<Rightarrow> string \<Rightarrow> string \<Rightarrow> 'a entity_rec \<Rightarrow> 's
     \<Rightarrow> ('s, 'a) outcome" where
  "persist_step persistence entityPersistence evId evType handledEntity st =
     (if deleted handledEntity then
        (case p_remove persistence st entityPersistence evId of
           Inl err \<Rightarrow> (Inl err, st, [])
         | Inr st' \<Rightarrow>
             (Inr (Entity handledEntity, \<lparr>entity = entityPersistence, eventType = evType\<rparr>),
              st', [Remove entityPersistence evId]))
      else
        (case ent_id handledEntity of
           None \<Rightarrow> (Inl (Error missing_id_message), st, [])
         | Some i \<Rightarrow>
             if i = [] then (Inl (Error missing_id_message), st, [])
             else
               (case p_put persistence st entityPersistence i handledEntity of
                  Inl err \<Rightarrow> (Inl err, st, [])
                | Inr st' \<Rightarrow>
                    (Inr (Entity handledEntity,
                          \<lparr>entity = entityPersistence, eventType = evType\<rparr>), st',
                     [Put entityPersistence i handledEntity]))))"

text \<open>
  The same statements for whatever the calls gave back. Reading \<open>.deleted\<close> of
  \<open>undefined\<close> is a \<open>TypeError\<close>. The empty object and a primitive have neither
  \<open>deleted\<close> nor \<open>id\<close>. A table has them when it has own keys of these names, their
  values being functions, which are truthy: with an own key \<open>deleted\<close> the record under
  the event's id is removed and the cycle returns the table's properties with the meta, a
  thenable when the table has an own key \<open>then\<close>; else with an own key \<open>id\<close> the
  store's \<open>put\<close> is called with a function as id. \<open>own\<close> tells the own keys of each
  table.
\<close>

definition persist_value ::
  "('s, 'a entity_rec) persistence \<Rightarrow> string \<Rightarrow> string \<Rightarrow> string
     \<Rightarrow> (table_kind \<Rightarrow> string \<Rightarrow> bool) \<Rightarrow> 'a handled \<Rightarrow> 's \<Rightarrow> ('s, 'a) outcome" where
  "persist_value persistence entityPersistence evId evType own handled st =
     (case handled of
        Entity handledEntity \<Rightarrow>
          persist_step persistence entityPersistence evId evType handledEntity st
      | Empty_object \<Rightarrow> (Inl (Error missing_id_message), st, [])
      | Primitive \<Rightarrow> (Inl (Error missing_id_message), st, [])
      | Undefined_value \<Rightarrow> (Inl PropertyOfUndefined, st, [])
      | Table k \<Rightarrow>
          if own k ''deleted'' then
            (case p_remove persistence st entityPersistence evId of
               Inl err \<Rightarrow> (Inl err, st, [])
             | Inr st' \<Rightarrow>
                 (if own k ''then'' then Inl Outside_declared_types
                  else Inr (Table k, \<lparr>entity = entityPersistence, eventType = evType\<rparr>),
                  st', [Remove entityPersistence evId]))
          else if own k ''id'' then (Inl Outside_declared_types, st, [])
          else (Inl (Error missing_id_message), st, []))"

text \<open>
  The checkout: \<open>try { currentEntity = await persistence.get(...) } catch (err) { if
  (eventType !== sentinel) throw err }\<close>, with the string literal of the version as
  \<open>sentinel\<close>. After a tolerated failure \<open>currentEntity\<close> is still \<open>undefined\<close>.
\<close>

definition checkout ::
  "string \<Rightarrow> ('s, 'e) persistence \<Rightarrow> string \<Rightarrow> string \<Rightarrow> string \<Rightarrow> 's \<Rightarrow> error + 'e option" where
  "checkout sentinel persistence entityPersistence evId evType st =
     (case p_get persistence st entityPersistence evId of
        Inl err \<Rightarrow> if evType \<noteq> sentinel then Inl err else Inr None
      | Inr currentEntity \<Rightarrow> Inr currentEntity)"

text \<open>
  \<open>const updatedEntity = eventHandlers[eventType](currentEntity, event)\<close>: the call of
  what the lookup finds, the \<open>TypeError\<close> of calling \<open>undefined\<close> when it finds nothing.
\<close>

definition apply_transition ::
  "(string \<rightharpoonup> ('a, 'p, 'x) transition) \<Rightarrow> string \<Rightarrow> 'a entity_rec option \<Rightarrow> ('p, 'x) event_in
     \<Rightarrow> error + 'a handled" where
  "apply_transition eventHandlers evType currentEntity event =
     (case property_of eventHandlers evType of
        Own h \<Rightarrow>
          (case h currentEntity event of
             Inl err \<Rightarrow> Inl err
           | Inr updatedEntity \<Rightarrow> Inr (Entity updatedEntity))
      | Inherited m \<Rightarrow> call_inherited (has_own eventHandlers) Event_handlers m currentEntity
      | Missing \<Rightarrow> Inl NotAFunction)"

text \<open>
  \<open>entityEventHandler\<close> of \<open>src/package/index.ts\<close>: the sentinel is the literal
  \<open>'new'\<close>, and there is no side-handler table.
\<close>

definition entityEventHandler ::
  "('s, 'a entity_rec) persistence \<Rightarrow> string \<Rightarrow> (string \<rightharpoonup> ('a, 'p, 'x) transition)
     \<Rightarrow> ('p, 'x) event_in \<Rightarrow> 's \<Rightarrow> ('s, 'a) outcome" where
  "entityEventHandler persistence entityPersistence eventHandlers event st =
     (case checkout ''new'' persistence entityPersistence (eventId event) (eventType_of event) st of
        Inl err \<Rightarrow> (Inl err, st, [])
      | Inr currentEntity \<Rightarrow>
          (case apply_transition eventHandlers (eventType_of event) currentEntity event of
             Inl err \<Rightarrow> (Inl err, st, [])
           | Inr updatedEntity \<Rightarrow>
               persist_value persistence entityPersistence (eventId event) (eventType_of event)
                 (\<lambda>k. has_own eventHandlers) updatedEntity st))"

text \<open>
  \<open>entityEventHandler\<close> of the other version of the file (\<open>src/unnamed/part_001\<close>): the
  sentinel is the literal \<open>'add'\<close>, and
  \<open>if (sideHandlers && sideHandlers[eventType]) { handledEntity = await
  sideHandlers[eventType](currentEntity, event, updatedEntity) }\<close>.
  A side handler may read the store (the tests' one reads another collection); it is
  declared for an entity as its third argument. An inherited member is truthy and is
  called too; it does not read its third argument. \<open>await\<close> of the side table itself,
  which \<open>valueOf\<close> gives, calls its own property \<open>then\<close> when it has one.
\<close>

definition apply_side ::
  "(string \<rightharpoonup> ('s, 'a, 'p, 'x) side_handler) option \<Rightarrow> string \<Rightarrow> 's \<Rightarrow> 'a entity_rec option
     \<Rightarrow> ('p, 'x) event_in \<Rightarrow> 'a handled \<Rightarrow> error + 'a handled" where
  "apply_side sideHandlers evType st currentEntity event updatedEntity =
     (case sideHandlers of
        None \<Rightarrow> Inr updatedEntity
      | Some tbl \<Rightarrow>
          (case property_of tbl evType of
             Missing \<Rightarrow> Inr updatedEntity
           | Own s \<Rightarrow>
               (case updatedEntity of
                  Entity u \<Rightarrow>
                    (case s st currentEntity event u of
                       Inl err \<Rightarrow> Inl err
                     | Inr handledEntity \<Rightarrow> Inr (Entity handledEntity))
                | _ \<Rightarrow> Inl Outside_declared_types)
           | Inherited m \<Rightarrow>
               (case call_inherited (has_own tbl) Side_handlers m currentEntity of
                  Inl err \<Rightarrow> Inl err
                | Inr v \<Rightarrow>
                    if v = Table Side_handlers \<and> has_own tbl ''then''
                    then Inl Outside_declared_types else Inr v)))"

definition own_keys ::
  "(string \<rightharpoonup> ('a, 'p, 'x) transition) \<Rightarrow> (string \<rightharpoonup> ('s, 'a, 'p, 'x) side_handler) option
     \<Rightarrow> table_kind \<Rightarrow> string \<Rightarrow> bool" where
  "own_keys eventHandlers sideHandlers k =
     (case k of
        Event_handlers \<Rightarrow> has_own eventHandlers
      | Side_handlers \<Rightarrow>
          (case sideHandlers of None \<Rightarrow> (\<lambda>name. False) | Some tbl \<Rightarrow> has_own tbl))"

definition entityEventHandler_side ::
  "('s, 'a entity_rec) persistence \<Rightarrow> string \<Rightarrow> (string \<rightharpoonup> ('a, 'p, 'x) transition)
     \<Rightarrow> ('p, 'x) event_in \<Rightarrow> (string \<rightharpoonup> ('s, 'a, 'p, 'x) side_handler) option \<Rightarrow> 's
     \<Rightarrow> ('s, 'a) outcome" where
  "entityEventHandler_side persistence entityPersistence eventHandlers event sideHandlers st =
     (case checkout ''add'' persistence entityPersistence (eventId event) (eventType_of event) st of
        Inl err \<Rightarrow> (Inl err, st, [])
      | Inr currentEntity \<Rightarrow>
          (case apply_transition eventHandlers (eventType_of event) currentEntity event of
             Inl err \<Rightarrow> (Inl err, st, [])
           | Inr updatedEntity \<Rightarrow>
               (case apply_side sideHandlers (eventType_of event) st currentEntity event
                       updatedEntity of
                  Inl err \<Rightarrow> (Inl err, st, [])
                | Inr handledEntity \<Rightarrow>
                    persist_value persistence entityPersistence (eventId event)
                      (eventType_of event) (own_keys eventHandlers sideHandlers)
                      handledEntity st)))"

section \<open>The entity service\<close>

text \<open>
  \<open>entityServiceFactory\<close> is \<open>pipe(withLatestFrom(persistence$), concatMap(([event,
  persistence]) => from(entityEventHandler(...))), share())\<close>. The store handle is the one
  \<open>persistence$\<close> has emitted before the events arrive (the tests' \<open>from([memoryDB])\<close>).
  \<open>concatMap\<close> subscribes to the promise of one event after the promise of the event
  before it has resolved, and a rejected promise ends the output with that error: the
  events after it are not handled. The result is the settled values emitted, the error
  that ended the stream if any, the store and the writes completed.
\<close>

type_synonym ('s, 'a) run =
  "('a handled \<times> meta) list \<times> error option \<times> 's \<times> 'a entity_rec store_write list"

text \<open>The version of \<open>src/unnamed/part_001\<close>, with the optional side handlers.\<close>

fun entityServiceFactory_side ::
  "('s, 'a entity_rec) persistence \<Rightarrow> string \<Rightarrow> (string \<rightharpoonup> ('a, 'p, 'x) transition)
     \<Rightarrow> (string \<rightharpoonup> ('s, 'a, 'p, 'x) side_handler) option \<Rightarrow> ('p, 'x) event_in list \<Rightarrow> 's
     \<Rightarrow> ('s, 'a) run" where
  "entityServiceFactory_side persistence entityPersistence eventHandlers sideHandlers [] st =
     ([], None, st, [])"
| "entityServiceFactory_side persistence entityPersistence eventHandlers sideHandlers
     (event # events) st =
     (case entityEventHandler_side persistence entityPersistence eventHandlers event
             sideHandlers st of
        (Inl err, st', ws) \<Rightarrow> ([], Some err, st', ws)
      | (Inr settled, st', ws) \<Rightarrow>
          (case entityServiceFactory_side persistence entityPersistence eventHandlers
                  sideHandlers events st' of
             (out, err, st'', ws') \<Rightarrow> (settled # out, err, st'', ws @ ws')))"

text \<open>
  The version of \<open>src/package/index.ts\<close>, with the optional \<open>eventHandlerWrapper\<close>:
  \<open>wrappedEventHandlers[key] = eventHandlerWrapper(() => eventHandlers[key])\<close> for each
  key of \<open>eventHandlers\<close>.
\<close>

definition wrappedEventHandlers ::
  "((unit \<Rightarrow> ('a, 'p, 'x) transition) \<Rightarrow> ('a, 'p, 'x) transition)
     \<Rightarrow> (string \<rightharpoonup> ('a, 'p, 'x) transition) \<Rightarrow> (string \<rightharpoonup> ('a, 'p, 'x) transition)" where
  "wrappedEventHandlers eventHandlerWrapper eventHandlers =
     (\<lambda>key. case eventHandlers key of
               None \<Rightarrow> None
             | Some h \<Rightarrow> Some (eventHandlerWrapper (\<lambda>_. h)))"

fun entityServiceFactory ::
  "('s, 'a entity_rec) persistence \<Rightarrow> string \<Rightarrow> (string \<rightharpoonup> ('a, 'p, 'x) transition)
     \<Rightarrow> ((unit \<Rightarrow> ('a, 'p, 'x) transition) \<Rightarrow> ('a, 'p, 'x) transition) option
     \<Rightarrow> ('p, 'x) event_in list \<Rightarrow> 's \<Rightarrow> ('s, 'a) run" where
  "entityServiceFactory persistence entityPersistence eventHandlers eventHandlerWrapper [] st =
     ([], None, st, [])"
| "entityServiceFactory persistence entityPersistence eventHandlers eventHandlerWrapper
     (event # events) st =
     (case entityEventHandler persistence entityPersistence
             (case eventHandlerWrapper of
                None \<Rightarrow> eventHandlers
              | Some w \<Rightarrow> wrappedEventHandlers w eventHandlers) event st of
        (Inl err, st', ws) \<Rightarrow> ([], Some err, st', ws)
      | (Inr settled, st', ws) \<Rightarrow>
          (case entityServiceFactory persistence entityPersistence eventHandlers
                  eventHandlerWrapper events st' of
             (out, err, st'', ws') \<Rightarrow> (settled # out, err, st'', ws @ ws')))"

section \<open>The store and the calculator domain of the tests\<close>

text \<open>
  Modelled from the spec: a store with the persistence interface of the specification,
  standing for the in-memory store of the tests (\<open>@taterer/persist-memory\<close>, an external
  package): \<open>get(collection, id)\<close> gives the entity and fails with NotFound when absent,
  \<open>put(collection, key{id}, entity)\<close> and \<open>remove(collection, key{id})\<close> succeed. The
  state maps a collection and an id to the record.
\<close>

type_synonym 'e memory = "string \<times> string \<rightharpoonup> 'e"

definition memoryFactory :: "('e memory, 'e) persistence" where
  "memoryFactory =
     \<lparr>p_get = (\<lambda>st c i. case st (c, i) of None \<Rightarrow> Inl NotFound | Some e \<Rightarrow> Inr (Some e)),
      p_put = (\<lambda>st c i e. Inr (st((c, i) \<mapsto> e))),
      p_remove = (\<lambda>st c i. Inr (st((c, i) := None)))\<rparr>"

text \<open>
  The calculator of the tests:
  \<open>add: (entity, event) => ({ ...entity, id: event.id, amount: (entity?.amount || 0) +
  event.amount })\<close>. The amount is a number or \<open>NaN\<close> (\<open>None\<close>): on a cluster, an
  array, \<open>event.id\<close> and \<open>event.amount\<close> are \<open>undefined\<close>, so the id is absent and
  the sum is \<open>NaN\<close>; \<open>NaN || 0\<close> is \<open>0\<close>. The numbers are integers, which the
  code adds exactly as long as they stay below \<open>2^53\<close> in size.
\<close>

definition amount_or_0 :: "int option entity_rec option \<Rightarrow> int" where
  "amount_or_0 cur =
     (case cur of
        None \<Rightarrow> 0
      | Some c \<Rightarrow> (case body c of None \<Rightarrow> 0 | Some n \<Rightarrow> n))"

fun additionHandler :: "(int option, int, 'x) transition" where
  "additionHandler cur (Single e) =
     Inr \<lparr>ent_id = Some (ev_id e),
          deleted = (case cur of None \<Rightarrow> False | Some c \<Rightarrow> deleted c),
          body = Some (amount_or_0 cur + ev_payload e)\<rparr>"
| "additionHandler cur (Cluster e rest) =
     Inr \<lparr>ent_id = None,
          deleted = (case cur of None \<Rightarrow> False | Some c \<Rightarrow> deleted c),
          body = None\<rparr>"

definition calc_event :: "string \<Rightarrow> string \<Rightarrow> int \<Rightarrow> (int, 'x) event_in" where
  "calc_event i ty n =
     Single \<lparr>ev_id = i, ev_meta = \<lparr>entity = ''calc'', eventType = ty\<rparr>, ev_payload = n\<rparr>"

section \<open>The steps before persistence, and the fold of the specification\<close>

text \<open>
  What a cycle hands to its persistence step, or the error that ends the cycle before it:
  checkout, then the transition, then, in the version with side handlers, the side
  handler.
\<close>

definition settle ::
  "('s, 'a entity_rec) persistence \<Rightarrow> string \<Rightarrow> (string \<rightharpoonup> ('a, 'p, 'x) transition)
     \<Rightarrow> ('p, 'x) event_in \<Rightarrow> 's \<Rightarrow> error + 'a handled" where
  "settle persistence entityPersistence eventHandlers event st =
     (case checkout ''new'' persistence entityPersistence (eventId event) (eventType_of event) st of
        Inl err \<Rightarrow> Inl err
      | Inr currentEntity \<Rightarrow>
          apply_transition eventHandlers (eventType_of event) currentEntity event)"

definition settle_side ::
  "('s, 'a entity_rec) persistence \<Rightarrow> string \<Rightarrow> (string \<rightharpoonup> ('a, 'p, 'x) transition)
     \<Rightarrow> ('p, 'x) event_in \<Rightarrow> (string \<rightharpoonup> ('s, 'a, 'p, 'x) side_handler) option \<Rightarrow> 's
     \<Rightarrow> error + 'a handled" where
  "settle_side persistence entityPersistence eventHandlers event sideHandlers st =
     (case checkout ''add'' persistence entityPersistence (eventId event) (eventType_of event) st of
        Inl err \<Rightarrow> Inl err
      | Inr currentEntity \<Rightarrow>
          (case apply_transition eventHandlers (eventType_of event) currentEntity event of
             Inl err \<Rightarrow> Inl err
           | Inr updatedEntity \<Rightarrow>
               apply_side sideHandlers (eventType_of event) st currentEntity event
                 updatedEntity))"

text \<open>
  The side step for an entity when the side table, if there is one, has the type as an own
  key or does not find it at all: the function of the caller is called with the current
  entity, the event and the updated entity, and without one the updated entity stays.
\<close>

definition side_step ::
  "(string \<rightharpoonup> ('s, 'a, 'p, 'x) side_handler) option \<Rightarrow> string \<Rightarrow> 's \<Rightarrow> 'a entity_rec option
     \<Rightarrow> ('p, 'x) event_in \<Rightarrow> 'a entity_rec \<Rightarrow> error + 'a entity_rec" where
  "side_step sideHandlers evType st currentEntity event updatedEntity =
     (case sideHandlers of
        None \<Rightarrow> Inr updatedEntity
      | Some tbl \<Rightarrow>
          (case tbl evType of
             None \<Rightarrow> Inr updatedEntity
           | Some s \<Rightarrow> s st currentEntity event updatedEntity))"

text \<open>
  The left fold of the specification's testable property: the transition functions applied
  one after the other, each to the result of the one before. \<open>scan_transitions\<close> keeps
  every intermediate entity; the fold's value is the last of them.
\<close>

fun scan_transitions ::
  "(string \<rightharpoonup> ('a, 'p, 'x) transition) \<Rightarrow> 'a entity_rec option \<Rightarrow> ('p, 'x) event_in list
     \<Rightarrow> error + 'a entity_rec list" where
  "scan_transitions eventHandlers cur [] = Inr []"
| "scan_transitions eventHandlers cur (event # events) =
     (case eventHandlers (eventType_of event) of
        None \<Rightarrow> Inl NotAFunction
      | Some h \<Rightarrow>
          (case h cur event of
             Inl err \<Rightarrow> Inl err
           | Inr u \<Rightarrow>
               (case scan_transitions eventHandlers (Some u) events of
                  Inl err \<Rightarrow> Inl err
                | Inr us \<Rightarrow> Inr (u # us))))"

fun fold_transitions ::
  "(string \<rightharpoonup> ('a, 'p, 'x) transition) \<Rightarrow> 'a entity_rec option \<Rightarrow> ('p, 'x) event_in list
     \<Rightarrow> error + 'a entity_rec option" where
  "fold_transitions eventHandlers cur [] = Inr cur"
| "fold_transitions eventHandlers cur (event # events) =
     (case eventHandlers (eventType_of event) of
        None \<Rightarrow> Inl NotAFunction
      | Some h \<Rightarrow>
          (case h cur event of
             Inl err \<Rightarrow> Inl err
           | Inr u \<Rightarrow> fold_transitions eventHandlers (Some u) events))"

section \<open>The deduplication filter\<close>

text \<open>
  \<open>filterPreviouslySeenIds\<close> creates \<open>const map = new Map()\<close> once, when the operator is
  built, and filters with
  \<open>const hasId = map.has(event.id); if (hasId) { return false } else { map.set(event.id,
  true); return true }\<close>. \<open>map_has\<close> is \<open>map.has\<close>, \<open>seen_step\<close> is that predicate with the
  map passed through;
  \<open>feed\<close> sends values through an instance whose map is \<open>m\<close>, and gives the values
  passed on and the map afterwards. The id of a value is read by \<open>idf\<close>.
\<close>

definition map_has :: "(string \<rightharpoonup> bool) \<Rightarrow> string \<Rightarrow> bool" where
  "map_has m i = (case m i of None \<Rightarrow> False | Some v \<Rightarrow> True)"

definition seen_step :: "(string \<rightharpoonup> bool) \<Rightarrow> string \<Rightarrow> bool \<times> (string \<rightharpoonup> bool)" where
  "seen_step m i = (if map_has m i then (False, m) else (True, m(i \<mapsto> True)))"

fun feed :: "('v \<Rightarrow> string) \<Rightarrow> (string \<rightharpoonup> bool) \<Rightarrow> 'v list \<Rightarrow> 'v list \<times> (string \<rightharpoonup> bool)" where
  "feed idf m [] = ([], m)"
| "feed idf m (x # xs) =
     (case seen_step m (idf x) of
        (keep, m') \<Rightarrow>
          (case feed idf m' xs of
             (out, m'') \<Rightarrow> (if keep then x # out else out, m'')))"

text \<open>A new instance: its map is empty.\<close>

definition filterPreviouslySeenIds :: "('v \<Rightarrow> string) \<Rightarrow> 'v list \<Rightarrow> 'v list" where
  "filterPreviouslySeenIds idf xs = fst (feed idf Map.empty xs)"

section \<open>Subjects\<close>

text \<open>
  The values of JavaScript that \<open>defaultValue ? ... : ...\<close> can meet, with the numbers
  restricted to the integers, and their truthiness: \<open>undefined\<close>, \<open>null\<close>, \<open>false\<close>,
  \<open>0\<close> and the empty string are falsy, every object is truthy.
\<close>

datatype jsval =
  JUndefined
| JNull
| JBool bool
| JNum int
| JStr string
| JObj "(string \<times> jsval) list"

fun truthy :: "jsval \<Rightarrow> bool" where
  "truthy JUndefined = False"
| "truthy JNull = False"
| "truthy (JBool b) = b"
| "truthy (JNum n) = (n \<noteq> 0)"
| "truthy (JStr s) = (s \<noteq> [])"
| "truthy (JObj fs) = True"

text \<open>
  The two subjects of rxjs the factories choose between: a \<open>Subject\<close> holds no value, a
  \<open>BehaviorSubject\<close> holds its latest value and emits it to each new subscriber.
  \<open>next\<close> replaces the value held.
\<close>

datatype subject =
  PlainSubject
| BehaviorSubject jsval

fun on_subscribe :: "subject \<Rightarrow> jsval list" where
  "on_subscribe PlainSubject = []"
| "on_subscribe (BehaviorSubject v) = [v]"

fun next_value :: "subject \<Rightarrow> jsval \<Rightarrow> subject" where
  "next_value PlainSubject v = PlainSubject"
| "next_value (BehaviorSubject old) v = BehaviorSubject v"

text \<open>
  \<open>const subject$ = defaultValue ? new BehaviorSubject<T>(defaultValue) : new Subject<T>()\<close>,
  in \<open>subjectFactory\<close> and in \<open>eventFactory\<close>; a call without the argument has
  \<open>defaultValue = undefined\<close>. The second component of the source's result, \<open>addEvent\<close>,
  is \<open>subject$.next(event)\<close>, in \<open>eventFactory\<close> \<open>subject$.next(addMeta(event, meta))\<close>.
\<close>

definition subjectFactory :: "jsval \<Rightarrow> subject" where
  "subjectFactory defaultValue =
     (if truthy defaultValue then BehaviorSubject defaultValue else PlainSubject)"

definition subject_addEvent :: "subject \<Rightarrow> jsval \<Rightarrow> subject" where
  "subject_addEvent subj event = next_value subj event"

text \<open>
  \<open>addMeta(event, meta) = { ...event, meta }\<close>: the own properties of an object, with
  \<open>meta\<close> set; a string spreads into its characters by index, any other primitive into
  nothing.
\<close>

fun set_field :: "string \<Rightarrow> jsval \<Rightarrow> (string \<times> jsval) list \<Rightarrow> (string \<times> jsval) list" where
  "set_field k v [] = [(k, v)]"
| "set_field k v ((k', v') # fs) =
     (if k' = k then (k, v) # fs else (k', v') # set_field k v fs)"

function decimal :: "nat \<Rightarrow> string" where
  "decimal n =
     (if n < 10 then [char_of (48 + n)] else decimal (n div 10) @ [char_of (48 + n mod 10)])"
  by pat_completeness auto
termination
  by (relation "measure id") auto

fun spread :: "jsval \<Rightarrow> (string \<times> jsval) list" where
  "spread (JObj fs) = fs"
| "spread (JStr s) = map (\<lambda>k. (decimal k, JStr [s ! k])) [0..<length s]"
| "spread v = []"

definition meta_value :: "meta \<Rightarrow> jsval" where
  "meta_value m = JObj [(''entity'', JStr (entity m)), (''eventType'', JStr (eventType m))]"

definition addMeta :: "jsval \<Rightarrow> meta \<Rightarrow> jsval" where
  "addMeta event m = JObj (set_field ''meta'' (meta_value m) (spread event))"

definition eventFactory :: "meta \<Rightarrow> jsval \<Rightarrow> subject" where
  "eventFactory m defaultValue =
     (if truthy defaultValue then BehaviorSubject defaultValue else PlainSubject)"

definition event_addEvent :: "meta \<Rightarrow> subject \<Rightarrow> jsval \<Rightarrow> subject" where
  "event_addEvent m subj event = next_value subj (addMeta event m)"

section \<open>Auxiliary notions of the statements, and the examples of the tests\<close>

text \<open>
  A successful cycle's one write: the removal under the event's id when the settled entity
  is marked deleted, else the upsert of the settled entity under its own non-empty id.
\<close>

definition one_write ::
  "'a entity_rec \<Rightarrow> ('s, 'a entity_rec) persistence \<Rightarrow> string \<Rightarrow> string \<Rightarrow> 's \<Rightarrow> 's
     \<Rightarrow> 'a entity_rec store_write list \<Rightarrow> bool" where
  "one_write h P c i st st' ws =
     (if deleted h then ws = [Remove c i] \<and> p_remove P st c i = Inr st'
      else (case ent_id h of
              None \<Rightarrow> False
            | Some k \<Rightarrow> k \<noteq> [] \<and> ws = [Put c k h] \<and> p_put P st c k h = Inr st'))"

text \<open>
  The error a cycle ends with when the type of its event is not an own key of the
  transition table and the call of what the lookup finds leaves nothing to persist: the
  \<open>TypeError\<close> of calling \<open>undefined\<close> when nothing is found; for an inherited member
  the \<open>TypeError\<close> it throws, or that of reading \<open>.deleted\<close> of the \<open>undefined\<close> it
  gives, or the error of the missing id for what else it gives.
\<close>

fun inherited_failure :: "proto_member \<Rightarrow> error" where
  "inherited_failure P_defineGetter = GetterNotCallable"
| "inherited_failure P_defineSetter = GetterNotCallable"
| "inherited_failure P_lookupGetter = PropertyOfUndefined"
| "inherited_failure P_lookupSetter = PropertyOfUndefined"
| "inherited_failure P_proto = NotAFunction"
| "inherited_failure m = Error missing_id_message"

definition lookup_failure :: "string \<Rightarrow> error" where
  "lookup_failure name =
     (case object_prototype name of
        None \<Rightarrow> NotAFunction
      | Some m \<Rightarrow> inherited_failure m)"

text \<open>
  The inherited members whose call throws: a side handler is not reached after them.
\<close>

definition call_throws :: "string \<Rightarrow> bool" where
  "call_throws name =
     (name = ''__defineGetter__'' \<or> name = ''__defineSetter__'' \<or> name = ''__proto__'')"

text \<open>
  What a service emits when the cycles of \<open>events\<close> settle on the entities \<open>us\<close>: each
  entity with the meta of its cycle. \<open>effective_handlers\<close> is the table the cycles of
  \<open>src/package/index.ts\<close> run with: the caller's, or the wrapped one.
\<close>

definition settled_at ::
  "string \<Rightarrow> 'a entity_rec list \<Rightarrow> ('p, 'x) event_in list \<Rightarrow> ('a handled \<times> meta) list" where
  "settled_at c us events =
     map (\<lambda>(u, e). (Entity u, \<lparr>entity = c, eventType = eventType_of e\<rparr>)) (zip us events)"

definition effective_handlers ::
  "((unit \<Rightarrow> ('a, 'p, 'x) transition) \<Rightarrow> ('a, 'p, 'x) transition) option
     \<Rightarrow> (string \<rightharpoonup> ('a, 'p, 'x) transition) \<Rightarrow> (string \<rightharpoonup> ('a, 'p, 'x) transition)" where
  "effective_handlers eventHandlerWrapper eventHandlers =
     (case eventHandlerWrapper of
        None \<Rightarrow> eventHandlers
      | Some w \<Rightarrow> wrappedEventHandlers w eventHandlers)"

text \<open>
  The side handlers accept along a run: in each cycle, with the store and the current
  entity that the cycles before have left under the id \<open>x\<close>, the side step gives back
  the updated entity of that cycle as it is.
\<close>

fun side_accepts ::
  "(string \<rightharpoonup> ('a entity_rec memory, 'a, 'p, 'x) side_handler) option \<Rightarrow> string \<Rightarrow> string
     \<Rightarrow> 'a entity_rec memory \<Rightarrow> ('p, 'x) event_in list \<Rightarrow> 'a entity_rec list \<Rightarrow> bool" where
  "side_accepts side c x st (e # es) (u # us) =
     (apply_side side (eventType_of e) st (st (c, x)) e (Entity u) = Inr (Entity u) \<and>
      side_accepts side c x (st((c, x) \<mapsto> u)) es us)"
| "side_accepts side c x st es us = True"

text \<open>
  The tests' table \<open>{ [additionEventType]: ... }\<close>, their \<open>removeItem: (entity) =>
  ({ ...entity, deleted: true })\<close>, and a side handler after their
  \<open>cartAggregateHandlers\<close>: it reads the item \<open>sku1\<close> of another collection from the
  store and throws \<open>'Invalid stock'\<close> when the updated amount exceeds the item's.
\<close>

definition eventHandlers_calc :: "string \<Rightarrow> (string \<rightharpoonup> (int option, int, 'x) transition)" where
  "eventHandlers_calc additionEventType = [additionEventType \<mapsto> additionHandler]"

fun removeItem :: "(int option, int, 'x) transition" where
  "removeItem None event = Inr \<lparr>ent_id = None, deleted = True, body = None\<rparr>"
| "removeItem (Some c) event = Inr (c\<lparr>deleted := True\<rparr>)"

definition stockCheck :: "(int option entity_rec memory, int option, int, 'x) side_handler" where
  "stockCheck st cur event updated =
     (case p_get memoryFactory st ''shape'' ''sku1'' of
        Inl err \<Rightarrow> Inl err
      | Inr itemEntity \<Rightarrow>
          if amount_or_0 (Some updated) > amount_or_0 itemEntity then Inl (Error ''Invalid stock'')
          else Inr updated)"

definition calc_entity :: "string \<Rightarrow> int \<Rightarrow> int option entity_rec" where
  "calc_entity i n = \<lparr>ent_id = Some i, deleted = False, body = Some n\<rparr>"

text \<open>
  A side handler that accepts and transforms: it caps the updated amount at the stock of
  the item \<open>sku1\<close>.
\<close>

definition capAtStock :: "(int option entity_rec memory, int option, int, 'x) side_handler" where
  "capAtStock st cur event updated =
     (case p_get memoryFactory st ''shape'' ''sku1'' of
        Inl err \<Rightarrow> Inl err
      | Inr itemEntity \<Rightarrow>
          Inr (updated\<lparr>body := Some (min (amount_or_0 (Some updated)) (amount_or_0 itemEntity))\<rparr>))"

text \<open>
  A transition for replayed batches: on a cluster it adds the amount of the first element
  and the amounts that follow it.
\<close>

fun batchAddition :: "(int option, int, int) transition" where
  "batchAddition cur (Single e) =
     Inr \<lparr>ent_id = Some (ev_id e), deleted = False,
          body = Some (amount_or_0 cur + ev_payload e)\<rparr>"
| "batchAddition cur (Cluster e rest) =
     Inr \<lparr>ent_id = Some (ev_id e), deleted = False,
          body = Some (amount_or_0 cur + ev_payload e + sum_list rest)\<rparr>"

text \<open>
  Stores of the examples: one with an item of stock 2 and a cart of amount 1, one with an
  item of stock 20, and one whose record under \<open>cart1\<close> carries another id than its key.
\<close>

definition stocked :: "int option entity_rec memory" where
  "stocked = [(''shape'', ''sku1'') \<mapsto> calc_entity ''sku1'' 2,
              (''line'', ''cart1'') \<mapsto> calc_entity ''cart1'' 1]"

definition well_stocked :: "int option entity_rec memory" where
  "well_stocked = [(''shape'', ''sku1'') \<mapsto> calc_entity ''sku1'' 20]"

definition renamed :: "int option entity_rec memory" where
  "renamed = [(''line'', ''cart1'') \<mapsto> calc_entity ''cart2'' 1,
              (''line'', ''cart2'') \<mapsto> calc_entity ''cart2'' 5]"

text \<open>
  The cases in which a cycle whose event type is not an own key of the transition table
  goes on after the call of an inherited member: \<open>constructor\<close> gives back the current
  record when there is one; \<open>valueOf\<close> gives back the table, which has a \<open>deleted\<close>
  or an \<open>id\<close> when it has an own key of that name; \<open>toLocaleString\<close> calls the
  table's own \<open>toString\<close>. With a side table, also: the side table has a function of the
  caller under the inherited name, and it is reached; \<open>valueOf\<close> gives back the side
  table, which has an own key \<open>deleted\<close>, \<open>id\<close> or \<open>then\<close>; \<open>toLocaleString\<close> calls
  the side table's own \<open>toString\<close>.
\<close>

definition inherited_goes_on :: "(string \<rightharpoonup> 'h) \<Rightarrow> string \<Rightarrow> 'e option \<Rightarrow> bool" where
  "inherited_goes_on tbl name cur =
     ((name = ''constructor'' \<and> cur \<noteq> None) \<or>
      (name = ''valueOf'' \<and> (has_own tbl ''deleted'' \<or> has_own tbl ''id'')) \<or>
      (name = ''toLocaleString'' \<and> has_own tbl ''toString''))"

definition side_goes_on :: "(string \<rightharpoonup> 'h) option \<Rightarrow> string \<Rightarrow> bool" where
  "side_goes_on side name =
     (case side of
        None \<Rightarrow> False
      | Some stbl \<Rightarrow>
          (object_prototype name \<noteq> None \<and> \<not> call_throws name \<and> has_own stbl name) \<or>
          (name = ''valueOf'' \<and>
             (has_own stbl ''deleted'' \<or> has_own stbl ''id'' \<or> has_own stbl ''then'')) \<or>
          (name = ''toLocaleString'' \<and> has_own stbl ''toString''))"

section \<open>Lemmas on one cycle\<close>

lemmas calc_defs = eventHandlers_calc_def calc_event_def calc_entity_def memoryFactory_def
  entityEventHandler_def entityEventHandler_side_def checkout_def persist_step_def side_step_def
  amount_or_0_def settle_def settle_side_def one_write_def stockCheck_def
  apply_transition_def apply_side_def persist_value_def property_of_def has_own_def
  own_keys_def object_prototype_def proto_members_def

lemma property_of_own: "tbl name = Some h \<Longrightarrow> property_of tbl name = Own h"
  by (simp add: property_of_def)

lemma property_of_new [simp]:
  "property_of tbl ''new'' = (case tbl ''new'' of None \<Rightarrow> Missing | Some h \<Rightarrow> Own h)"
  by (simp add: property_of_def object_prototype_def proto_members_def split: option.splits)

lemma property_of_add [simp]:
  "property_of tbl ''add'' = (case tbl ''add'' of None \<Rightarrow> Missing | Some h \<Rightarrow> Own h)"
  by (simp add: property_of_def object_prototype_def proto_members_def split: option.splits)

lemma apply_transition_own:
  "tbl name = Some h \<Longrightarrow>
   apply_transition tbl name cur ev =
     (case h cur ev of Inl err \<Rightarrow> Inl err | Inr u \<Rightarrow> Inr (Entity u))"
  by (simp add: apply_transition_def property_of_own)

lemma apply_side_typed:
  "side = None \<or> (\<exists>stbl. side = Some stbl \<and> (stbl name \<noteq> None \<or> object_prototype name = None)) \<Longrightarrow>
   apply_side side name st cur ev (Entity u) =
     (case side_step side name st cur ev u of Inl err \<Rightarrow> Inl err | Inr w \<Rightarrow> Inr (Entity w))"
  by (auto simp add: apply_side_def side_step_def property_of_def split: option.splits)

lemma persist_value_entity [simp]:
  "persist_value P c i t own (Entity h) st = persist_step P c i t h st"
  by (simp add: persist_value_def)

lemma handler_settle:
  "entityEventHandler P c tbl ev st =
     (case settle P c tbl ev st of
        Inl err \<Rightarrow> (Inl err, st, [])
      | Inr v \<Rightarrow>
          persist_value P c (eventId ev) (eventType_of ev) (\<lambda>k. has_own tbl) v st)"
  by (simp add: entityEventHandler_def settle_def split: sum.splits)

lemma handler_side_settle:
  "entityEventHandler_side P c tbl ev side st =
     (case settle_side P c tbl ev side st of
        Inl err \<Rightarrow> (Inl err, st, [])
      | Inr v \<Rightarrow>
          persist_value P c (eventId ev) (eventType_of ev) (own_keys tbl side) v st)"
  by (simp add: entityEventHandler_side_def settle_side_def split: sum.splits)

lemma persist_step_deleted:
  "deleted h \<Longrightarrow>
   persist_step P c i t h st =
     (case p_remove P st c i of
        Inl err \<Rightarrow> (Inl err, st, [])
      | Inr st' \<Rightarrow> (Inr (Entity h, \<lparr>entity = c, eventType = t\<rparr>), st', [Remove c i]))"
  by (simp add: persist_step_def)





lemma object_prototype_SomeD: "object_prototype name = Some m \<Longrightarrow> name = member_name m"
  by (auto simp add: object_prototype_def find_Some_iff)

lemma object_prototype_new: "object_prototype ''new'' = None" "object_prototype ''add'' = None"
  by (simp_all add: object_prototype_def proto_members_def)

lemma object_prototype_member: "object_prototype (member_name m) = Some m"
  by (cases m) (simp_all add: object_prototype_def proto_members_def)

lemma object_prototype_names:
  "object_prototype ''constructor'' = Some P_constructor"
  "object_prototype ''toString'' = Some P_toString"
  "object_prototype ''toLocaleString'' = Some P_toLocaleString"
  "object_prototype ''valueOf'' = Some P_valueOf"
  "object_prototype ''hasOwnProperty'' = Some P_hasOwnProperty"
  "object_prototype ''isPrototypeOf'' = Some P_isPrototypeOf"
  "object_prototype ''propertyIsEnumerable'' = Some P_propertyIsEnumerable"
  "object_prototype ''__defineGetter__'' = Some P_defineGetter"
  "object_prototype ''__defineSetter__'' = Some P_defineSetter"
  "object_prototype ''__lookupGetter__'' = Some P_lookupGetter"
  "object_prototype ''__lookupSetter__'' = Some P_lookupSetter"
  "object_prototype ''__proto__'' = Some P_proto"
  by (simp_all add: object_prototype_def proto_members_def)

lemma inherited_stops:
  assumes "tbl name = None" and "\<not> inherited_goes_on tbl name cur"
  shows "(case apply_transition tbl name cur ev of
            Inl err \<Rightarrow> (Inl err, st, [])
          | Inr v \<Rightarrow> persist_value P c i t (\<lambda>k. has_own tbl) v st) =
         (Inl (lookup_failure name), st, [])"
proof (cases "object_prototype name")
  case None
  with assms show ?thesis
    by (simp add: apply_transition_def property_of_def lookup_failure_def)
next
  case (Some m)
  then have name: "name = member_name m"
    by (rule object_prototype_SomeD)
  from assms show ?thesis
    unfolding name
    by (cases m)
      (simp_all add: apply_transition_def property_of_def lookup_failure_def object_prototype_names
        inherited_goes_on_def persist_value_def split: option.splits)
qed

lemma inherited_stops_side:
  assumes "tbl name = None" and "\<not> inherited_goes_on tbl name cur"
    and "\<not> side_goes_on side name"
  shows "(case apply_transition tbl name cur ev of
            Inl err \<Rightarrow> (Inl err, st, [])
          | Inr v \<Rightarrow>
              (case apply_side side name st cur ev v of
                 Inl err \<Rightarrow> (Inl err, st, [])
               | Inr w \<Rightarrow> persist_value P c i t (own_keys tbl side) w st)) =
         (Inl (lookup_failure name), st, [])"
proof (cases "object_prototype name")
  case None
  with assms show ?thesis
    by (simp add: apply_transition_def property_of_def lookup_failure_def)
next
  case (Some m)
  then have name: "name = member_name m"
    by (rule object_prototype_SomeD)
  show ?thesis
  proof (cases side)
    case None
    from assms(1,2) show ?thesis
      unfolding name None
      by (cases m)
        (simp_all add: apply_transition_def apply_side_def property_of_def lookup_failure_def
          object_prototype_names inherited_goes_on_def persist_value_def own_keys_def
          split: option.splits)
  next
    case (Some stbl)
    from assms show ?thesis
      unfolding name Some
      by (cases m)
        (simp_all add: apply_transition_def apply_side_def property_of_def lookup_failure_def
          object_prototype_names inherited_goes_on_def side_goes_on_def call_throws_def
          persist_value_def own_keys_def has_own_def
          split: option.splits)
  qed
qed

section \<open>The persistence step\<close>



section \<open>The checkout\<close>

text \<open>
  Claim C3, as amended. When the fetch fails, with whatever error, the cycle goes on with
  an absent current entity exactly when the event's type is the string literal written in
  the handler: \<open>'new'\<close> in \<open>src/package/index.ts\<close>, \<open>'add'\<close> in the version with side
  handlers. For every other type the outcome is the fetch error itself, the store as it
  was, and no write.
\<close>

theorem fetch_failure_tolerated_for_literal:
  assumes "p_get P st c (eventId ev) = Inl err"
  shows "entityEventHandler P c tbl ev st =
           (if eventType_of ev = ''new'' then
              (case tbl (eventType_of ev) of
                 None \<Rightarrow> (Inl NotAFunction, st, [])
               | Some h \<Rightarrow>
                   (case h None ev of
                      Inl e \<Rightarrow> (Inl e, st, [])
                    | Inr u \<Rightarrow> persist_step P c (eventId ev) (eventType_of ev) u st))
            else (Inl err, st, [])) \<and>
         entityEventHandler_side P c tbl ev side st =
           (if eventType_of ev = ''add'' then
              (case tbl (eventType_of ev) of
                 None \<Rightarrow> (Inl NotAFunction, st, [])
               | Some h \<Rightarrow>
                   (case h None ev of
                      Inl e \<Rightarrow> (Inl e, st, [])
                    | Inr u \<Rightarrow>
                        (case side_step side (eventType_of ev) st None ev u of
                           Inl e \<Rightarrow> (Inl e, st, [])
                         | Inr handled \<Rightarrow>
                             persist_step P c (eventId ev) (eventType_of ev) handled st)))
            else (Inl err, st, []))"
proof (intro conjI)
  show "entityEventHandler P c tbl ev st =
           (if eventType_of ev = ''new'' then
              (case tbl (eventType_of ev) of
                 None \<Rightarrow> (Inl NotAFunction, st, [])
               | Some h \<Rightarrow>
                   (case h None ev of
                      Inl e \<Rightarrow> (Inl e, st, [])
                    | Inr u \<Rightarrow> persist_step P c (eventId ev) (eventType_of ev) u st))
            else (Inl err, st, []))"
  proof (cases "eventType_of ev = ''new''")
    case True
    then show ?thesis
      using assms
      by (simp add: entityEventHandler_def checkout_def apply_transition_def
            split: option.splits sum.splits)
  next
    case False
    then show ?thesis
      using assms by (simp add: entityEventHandler_def checkout_def)
  qed
  show "entityEventHandler_side P c tbl ev side st =
           (if eventType_of ev = ''add'' then
              (case tbl (eventType_of ev) of
                 None \<Rightarrow> (Inl NotAFunction, st, [])
               | Some h \<Rightarrow>
                   (case h None ev of
                      Inl e \<Rightarrow> (Inl e, st, [])
                    | Inr u \<Rightarrow>
                        (case side_step side (eventType_of ev) st None ev u of
                           Inl e \<Rightarrow> (Inl e, st, [])
                         | Inr handled \<Rightarrow>
                             persist_step P c (eventId ev) (eventType_of ev) handled st)))
            else (Inl err, st, []))"
  proof (cases "eventType_of ev = ''add''")
    case True
    have np: "object_prototype ''add'' = None"
      by (simp add: object_prototype_def proto_members_def)
    have typed: "apply_side side ''add'' st None ev (Entity u) =
        (case side_step side ''add'' st None ev u of
           Inl err \<Rightarrow> Inl err | Inr w \<Rightarrow> Inr (Entity w))" for u
      by (rule apply_side_typed) (cases side; simp add: np)
    from True show ?thesis
      using assms
      by (simp add: entityEventHandler_side_def checkout_def apply_transition_def typed
            split: option.splits sum.splits)
  next
    case False
    then show ?thesis
      using assms by (simp add: entityEventHandler_side_def checkout_def)
  qed
qed

theorem fetch_failure_tolerated_for_literal_witness:
  "p_get memoryFactory (Map.empty :: int option entity_rec memory) ''line'' ''test-1'' = Inl NotFound \<and>
   entityEventHandler memoryFactory ''line'' (eventHandlers_calc ''changePrice'')
     (calc_event ''test-1'' ''changePrice'' 1 :: (int, unit) event_in) Map.empty =
     (Inl NotFound, Map.empty, []) \<and>
   entityEventHandler memoryFactory ''line'' (eventHandlers_calc ''new'')
     (calc_event ''test-1'' ''new'' 1 :: (int, unit) event_in) Map.empty =
     (Inr (Entity (calc_entity ''test-1'' 1), \<lparr>entity = ''line'', eventType = ''new''\<rparr>),
      [(''line'', ''test-1'') \<mapsto> calc_entity ''test-1'' 1],
      [Put ''line'' ''test-1'' (calc_entity ''test-1'' 1)]) \<and>
   entityEventHandler_side memoryFactory ''line'' (eventHandlers_calc ''changePrice'')
     (calc_event ''test-1'' ''changePrice'' 1 :: (int, unit) event_in) None Map.empty =
     (Inl NotFound, Map.empty, []) \<and>
   entityEventHandler_side memoryFactory ''line'' (eventHandlers_calc ''add'')
     (calc_event ''test-1'' ''add'' 1 :: (int, unit) event_in) None Map.empty =
     (Inr (Entity (calc_entity ''test-1'' 1), \<lparr>entity = ''line'', eventType = ''add''\<rparr>),
      [(''line'', ''test-1'') \<mapsto> calc_entity ''test-1'' 1],
      [Put ''line'' ''test-1'' (calc_entity ''test-1'' 1)])"
proof -
  have g: "p_get memoryFactory (Map.empty :: int option entity_rec memory) ''line''
      (eventId (calc_event ''test-1'' ''changePrice'' 1 :: (int, unit) event_in)) = Inl NotFound"
    by (simp add: calc_defs)
  have g': "p_get memoryFactory (Map.empty :: int option entity_rec memory) ''line''
      (eventId (calc_event ''test-1'' ''new'' 1 :: (int, unit) event_in)) = Inl NotFound"
    by (simp add: calc_defs)
  have g'': "p_get memoryFactory (Map.empty :: int option entity_rec memory) ''line''
      (eventId (calc_event ''test-1'' ''add'' 1 :: (int, unit) event_in)) = Inl NotFound"
    by (simp add: calc_defs)
  show ?thesis
    using fetch_failure_tolerated_for_literal [OF g, of "eventHandlers_calc ''changePrice''" None]
      fetch_failure_tolerated_for_literal [OF g', of "eventHandlers_calc ''new''" None]
      fetch_failure_tolerated_for_literal [OF g'', of "eventHandlers_calc ''add''" None]
    by (simp add: calc_defs)
qed

text \<open>
  The claim as stated fails: the sentinel is not a constant that the caller shares with
  its transition table. On an empty store, the tests' table, whose creation event is
  \<open>'add'\<close>, is refused with the fetch error by the handler of \<open>src/package/index.ts\<close>
  and accepted by the other version; a table whose creation event is \<open>'new'\<close>, the other
  way round.
\<close>

theorem sentinel_is_configuration_counterexample:
  "entityEventHandler memoryFactory ''line'' (eventHandlers_calc ''add'')
     (calc_event ''test-1'' ''add'' 1 :: (int, unit) event_in) Map.empty =
     (Inl NotFound, Map.empty, []) \<and>
   fst (entityEventHandler_side memoryFactory ''line'' (eventHandlers_calc ''add'')
     (calc_event ''test-1'' ''add'' 1 :: (int, unit) event_in) None Map.empty) =
     Inr (Entity (calc_entity ''test-1'' 1), \<lparr>entity = ''line'', eventType = ''add''\<rparr>) \<and>
   entityEventHandler_side memoryFactory ''line'' (eventHandlers_calc ''new'')
     (calc_event ''test-1'' ''new'' 1 :: (int, unit) event_in) None Map.empty =
     (Inl NotFound, Map.empty, []) \<and>
   fst (entityEventHandler memoryFactory ''line'' (eventHandlers_calc ''new'')
     (calc_event ''test-1'' ''new'' 1 :: (int, unit) event_in) Map.empty) =
     Inr (Entity (calc_entity ''test-1'' 1), \<lparr>entity = ''line'', eventType = ''new''\<rparr>)"
  by (simp add: calc_defs)

section \<open>The side handler\<close>

text \<open>
  Claim C4. In the version with side handlers, when the side-handler table has an entry
  \<open>s\<close> for the event's type, the checkout gave \<open>cur\<close> and the transition gave \<open>upd\<close>:
  the cycle calls \<open>s\<close> with \<open>cur\<close>, the event and \<open>upd\<close>, and persists what it returns;
  when \<open>s\<close> raises, the outcome is that error, the store as it was before the cycle, and
  no write.
\<close>

theorem side_handler_replaces_or_aborts:
  assumes "side = Some stbl" and "stbl (eventType_of ev) = Some s"
    and "checkout ''add'' P c (eventId ev) (eventType_of ev) st = Inr cur"
    and "tbl (eventType_of ev) = Some h" and "h cur ev = Inr upd"
  shows "entityEventHandler_side P c tbl ev side st =
           (case s st cur ev upd of
              Inl err \<Rightarrow> (Inl err, st, [])
            | Inr handled \<Rightarrow> persist_step P c (eventId ev) (eventType_of ev) handled st)"
  using assms
  by (simp add: entityEventHandler_side_def apply_transition_own apply_side_def
        property_of_own split: sum.splits)

theorem side_handler_replaces_or_aborts_witness:
  "checkout ''add'' memoryFactory ''line''
     (eventId (calc_event ''cart1'' ''add'' 10 :: (int, unit) event_in))
     (eventType_of (calc_event ''cart1'' ''add'' 10 :: (int, unit) event_in)) stocked =
     Inr (Some (calc_entity ''cart1'' 1)) \<and>
   additionHandler (Some (calc_entity ''cart1'' 1))
     (calc_event ''cart1'' ''add'' 10 :: (int, unit) event_in) = Inr (calc_entity ''cart1'' 11) \<and>
   stockCheck stocked (Some (calc_entity ''cart1'' 1))
     (calc_event ''cart1'' ''add'' 10 :: (int, unit) event_in) (calc_entity ''cart1'' 11) =
     Inl (Error ''Invalid stock'') \<and>
   entityEventHandler_side memoryFactory ''line'' (eventHandlers_calc ''add'')
     (calc_event ''cart1'' ''add'' 10 :: (int, unit) event_in) (Some [''add'' \<mapsto> stockCheck])
     stocked = (Inl (Error ''Invalid stock''), stocked, []) \<and>
   stocked (''line'', ''cart1'') = Some (calc_entity ''cart1'' 1)"
proof -
  let ?ev = "calc_event ''cart1'' ''add'' 10 :: (int, unit) event_in"
  have a: "[''add'' \<mapsto> stockCheck] (eventType_of ?ev) = Some stockCheck"
    by (simp add: calc_defs)
  have b: "checkout ''add'' memoryFactory ''line'' (eventId ?ev) (eventType_of ?ev) stocked =
      Inr (Some (calc_entity ''cart1'' 1))"
    by (simp add: calc_defs stocked_def)
  have c: "eventHandlers_calc ''add'' (eventType_of ?ev) = Some additionHandler"
    by (simp add: calc_defs)
  have d: "additionHandler (Some (calc_entity ''cart1'' 1)) ?ev = Inr (calc_entity ''cart1'' 11)"
    by (simp add: calc_defs)
  have e: "stockCheck stocked (Some (calc_entity ''cart1'' 1)) ?ev (calc_entity ''cart1'' 11) =
      Inl (Error ''Invalid stock'')"
    by (simp add: calc_defs stocked_def)
  show ?thesis
    using side_handler_replaces_or_aborts [where side = "Some [''add'' \<mapsto> stockCheck]"
        and stbl = "[''add'' \<mapsto> stockCheck]" and ev = ?ev and s = stockCheck
        and P = memoryFactory and c = "''line''" and st = stocked
        and cur = "Some (calc_entity ''cart1'' 1)" and tbl = "eventHandlers_calc ''add''"
        and h = additionHandler and upd = "calc_entity ''cart1'' 11", OF refl a b c d] b d e
    by (simp add: stocked_def)
qed

section \<open>A missing transition\<close>

text \<open>
  Claim C6, as amended. When the type of the event is not an own key of the transition
  table, the cycle fails, the store is as it was and no write is made: with the fetch error
  when the checkout failed; else with the \<open>TypeError\<close> of calling \<open>undefined\<close> when the
  type is not the name of a member of \<open>Object.prototype\<close> either, and with the error
  that the call of the inherited member leads to when it is; unless the cycle goes on after
  the inherited member (\<open>inherited_goes_on\<close>, and \<open>side_goes_on\<close> with a side table).
  A type that is not the name of an inherited member is never one of these cases.
\<close>

theorem missing_transition_fails_fast:
  assumes "tbl (eventType_of ev) = None"
  shows "(case checkout ''new'' P c (eventId ev) (eventType_of ev) st of
            Inl err \<Rightarrow> entityEventHandler P c tbl ev st = (Inl err, st, [])
          | Inr cur \<Rightarrow>
              inherited_goes_on tbl (eventType_of ev) cur \<or>
              entityEventHandler P c tbl ev st =
                (Inl (lookup_failure (eventType_of ev)), st, [])) \<and>
         (case checkout ''add'' P c (eventId ev) (eventType_of ev) st of
            Inl err \<Rightarrow> entityEventHandler_side P c tbl ev side st = (Inl err, st, [])
          | Inr cur \<Rightarrow>
              inherited_goes_on tbl (eventType_of ev) cur \<or>
              side_goes_on side (eventType_of ev) \<or>
              entityEventHandler_side P c tbl ev side st =
                (Inl (lookup_failure (eventType_of ev)), st, [])) \<and>
         (object_prototype (eventType_of ev) = None \<longrightarrow>
            lookup_failure (eventType_of ev) = NotAFunction \<and>
            (\<forall>cur. \<not> inherited_goes_on tbl (eventType_of ev) cur) \<and>
            \<not> side_goes_on side (eventType_of ev))"
proof (intro conjI impI)
  show "case checkout ''new'' P c (eventId ev) (eventType_of ev) st of
            Inl err \<Rightarrow> entityEventHandler P c tbl ev st = (Inl err, st, [])
          | Inr cur \<Rightarrow>
              inherited_goes_on tbl (eventType_of ev) cur \<or>
              entityEventHandler P c tbl ev st =
                (Inl (lookup_failure (eventType_of ev)), st, [])"
  proof (cases "checkout ''new'' P c (eventId ev) (eventType_of ev) st")
    case (Inl err)
    then show ?thesis
      by (simp add: entityEventHandler_def)
  next
    case (Inr cur)
    show ?thesis
    proof (cases "inherited_goes_on tbl (eventType_of ev) cur")
      case True
      with Inr show ?thesis by simp
    next
      case False
      from inherited_stops [OF assms False, where ev = ev and st = st and P = P and c = c
          and i = "eventId ev" and t = "eventType_of ev"]
      show ?thesis
        by (simp add: entityEventHandler_def Inr)
    qed
  qed
  show "case checkout ''add'' P c (eventId ev) (eventType_of ev) st of
            Inl err \<Rightarrow> entityEventHandler_side P c tbl ev side st = (Inl err, st, [])
          | Inr cur \<Rightarrow>
              inherited_goes_on tbl (eventType_of ev) cur \<or>
              side_goes_on side (eventType_of ev) \<or>
              entityEventHandler_side P c tbl ev side st =
                (Inl (lookup_failure (eventType_of ev)), st, [])"
  proof (cases "checkout ''add'' P c (eventId ev) (eventType_of ev) st")
    case (Inl err)
    then show ?thesis
      by (simp add: entityEventHandler_side_def)
  next
    case (Inr cur)
    show ?thesis
    proof (cases "inherited_goes_on tbl (eventType_of ev) cur \<or>
        side_goes_on side (eventType_of ev)")
      case True
      with Inr show ?thesis by auto
    next
      case False
      then have f1: "\<not> inherited_goes_on tbl (eventType_of ev) cur"
        and f2: "\<not> side_goes_on side (eventType_of ev)"
        by simp_all
      from inherited_stops_side [OF assms f1 f2, where ev = ev and st = st and P = P and c = c
          and i = "eventId ev" and t = "eventType_of ev"]
      show ?thesis
        by (simp add: entityEventHandler_side_def Inr)
    qed
  qed
next
  assume np: "object_prototype (eventType_of ev) = None"
  then show "lookup_failure (eventType_of ev) = NotAFunction"
    by (simp add: lookup_failure_def)
  have ne: "eventType_of ev \<noteq> member_name m" for m
    using np object_prototype_member [of m] by auto
  from ne [of P_constructor] ne [of P_valueOf] ne [of P_toLocaleString]
  show "\<forall>cur. \<not> inherited_goes_on tbl (eventType_of ev) cur"
    by (simp add: inherited_goes_on_def)
  from ne [of P_valueOf] ne [of P_toLocaleString] np
  show "\<not> side_goes_on side (eventType_of ev)"
    by (simp add: side_goes_on_def split: option.splits)
qed

theorem missing_transition_fails_fast_witness:
  "eventHandlers_calc ''add''
     (eventType_of (calc_event ''cart1'' ''setStock'' 10 :: (int, unit) event_in)) = None \<and>
   entityEventHandler memoryFactory ''line'' (eventHandlers_calc ''add'')
     (calc_event ''cart1'' ''setStock'' 10 :: (int, unit) event_in) stocked =
     (Inl NotAFunction, stocked, []) \<and>
   entityEventHandler_side memoryFactory ''line'' (eventHandlers_calc ''add'')
     (calc_event ''cart1'' ''setStock'' 10 :: (int, unit) event_in)
     (Some [''add'' \<mapsto> stockCheck]) stocked =
     (Inl NotAFunction, stocked, []) \<and>
   entityEventHandler_side memoryFactory ''line'' (eventHandlers_calc ''add'')
     (calc_event ''cart2'' ''setStock'' 10 :: (int, unit) event_in) None stocked =
     (Inl NotFound, stocked, []) \<and>
   eventHandlers_calc ''add''
     (eventType_of (calc_event ''cart1'' ''toString'' 10 :: (int, unit) event_in)) = None \<and>
   \<not> inherited_goes_on (eventHandlers_calc ''add'' :: string \<rightharpoonup> (int option, int, unit) transition)
       ''toString'' (Some (calc_entity ''cart1'' 1)) \<and>
   entityEventHandler memoryFactory ''line'' (eventHandlers_calc ''add'')
     (calc_event ''cart1'' ''toString'' 10 :: (int, unit) event_in) stocked =
     (Inl (Error missing_id_message), stocked, [])"
proof -
  let ?ev = "calc_event ''cart1'' ''setStock'' 10 :: (int, unit) event_in"
  let ?ev2 = "calc_event ''cart2'' ''setStock'' 10 :: (int, unit) event_in"
  let ?ev3 = "calc_event ''cart1'' ''toString'' 10 :: (int, unit) event_in"
  let ?tbl = "eventHandlers_calc ''add'' :: string \<rightharpoonup> (int option, int, unit) transition"
  let ?side = "Some [''add'' \<mapsto> stockCheck] ::
      (string \<rightharpoonup> (int option entity_rec memory, int option, int, unit) side_handler) option"
  have a: "?tbl (eventType_of ?ev) = None" and a2: "?tbl (eventType_of ?ev2) = None"
    and a3: "?tbl (eventType_of ?ev3) = None"
    by (simp_all add: eventHandlers_calc_def calc_event_def)
  have ty: "eventType_of ?ev = ''setStock''" "eventType_of ?ev2 = ''setStock''"
    "eventType_of ?ev3 = ''toString''" "eventId ?ev = ''cart1''" "eventId ?ev2 = ''cart2''"
    "eventId ?ev3 = ''cart1''"
    by (simp_all add: calc_event_def)
  have co: "checkout ''new'' memoryFactory ''line'' ''cart1'' ''setStock'' stocked =
      Inr (Some (calc_entity ''cart1'' 1))"
    "checkout ''add'' memoryFactory ''line'' ''cart1'' ''setStock'' stocked =
      Inr (Some (calc_entity ''cart1'' 1))"
    "checkout ''add'' memoryFactory ''line'' ''cart2'' ''setStock'' stocked = Inl NotFound"
    "checkout ''new'' memoryFactory ''line'' ''cart1'' ''toString'' stocked =
      Inr (Some (calc_entity ''cart1'' 1))"
    by (simp_all add: checkout_def memoryFactory_def stocked_def)
  have np: "object_prototype ''setStock'' = None"
    by (simp add: object_prototype_def proto_members_def)
  have lf: "lookup_failure ''setStock'' = NotAFunction"
    "lookup_failure ''toString'' = Error missing_id_message"
    by (simp_all add: lookup_failure_def object_prototype_def proto_members_def)
  have go: "\<not> inherited_goes_on ?tbl ''setStock'' cur" "\<not> side_goes_on ?side ''setStock''"
    "\<not> inherited_goes_on ?tbl ''toString'' cur" for cur :: "int option entity_rec option"
    by (simp_all add: inherited_goes_on_def side_goes_on_def np)
  note t1 = missing_transition_fails_fast [where tbl = ?tbl and ev = ?ev and P = memoryFactory
      and c = "''line''" and st = stocked and side = ?side, OF a]
  note t2 = missing_transition_fails_fast [where tbl = ?tbl and ev = ?ev2 and P = memoryFactory
      and c = "''line''" and st = stocked and side = None, OF a2]
  note t3 = missing_transition_fails_fast [where tbl = ?tbl and ev = ?ev3 and P = memoryFactory
      and c = "''line''" and st = stocked and side = None, OF a3]
  have r1: "entityEventHandler memoryFactory ''line'' ?tbl ?ev stocked =
      (Inl NotAFunction, stocked, [])"
    using t1 [THEN conjunct1] by (simp add: ty co lf go)
  have r2: "entityEventHandler_side memoryFactory ''line'' ?tbl ?ev ?side stocked =
      (Inl NotAFunction, stocked, [])"
    using t1 [THEN conjunct2, THEN conjunct1] by (simp add: ty co lf go)
  have r3: "entityEventHandler_side memoryFactory ''line'' ?tbl ?ev2 None stocked =
      (Inl NotFound, stocked, [])"
    using t2 [THEN conjunct2, THEN conjunct1] by (simp add: ty co)
  have r4: "entityEventHandler memoryFactory ''line'' ?tbl ?ev3 stocked =
      (Inl (Error missing_id_message), stocked, [])"
    using t3 [THEN conjunct1] by (simp add: ty co lf go)
  show ?thesis
    using r1 r2 r3 r4 go(3) by (simp add: eventHandlers_calc_def calc_event_def)
qed

text \<open>
  The claim as stated fails. The tests' table has no key \<open>constructor\<close>, yet on an
  event of that type for an existing record the inherited \<open>Object\<close> gives the record
  back and the cycle succeeds and puts it again, in both versions. A table that has a key
  \<open>deleted\<close> and no key \<open>valueOf\<close> is given back by the inherited \<open>valueOf\<close>, and the
  cycle succeeds and removes the record.
\<close>

theorem missing_transition_goes_on_counterexample:
  "eventHandlers_calc ''add'' ''constructor'' = None \<and>
   fst (entityEventHandler memoryFactory ''line'' (eventHandlers_calc ''add'')
     (calc_event ''cart1'' ''constructor'' 10 :: (int, unit) event_in) stocked) =
     Inr (Entity (calc_entity ''cart1'' 1), \<lparr>entity = ''line'', eventType = ''constructor''\<rparr>) \<and>
   snd (snd (entityEventHandler memoryFactory ''line'' (eventHandlers_calc ''add'')
     (calc_event ''cart1'' ''constructor'' 10 :: (int, unit) event_in) stocked)) =
     [Put ''line'' ''cart1'' (calc_entity ''cart1'' 1)] \<and>
   snd (snd (entityEventHandler_side memoryFactory ''line'' (eventHandlers_calc ''add'')
     (calc_event ''cart1'' ''constructor'' 10 :: (int, unit) event_in) None stocked)) =
     [Put ''line'' ''cart1'' (calc_entity ''cart1'' 1)] \<and>
   [''add'' \<mapsto> additionHandler, ''deleted'' \<mapsto> removeItem] ''valueOf'' = None \<and>
   fst (entityEventHandler memoryFactory ''line''
     [''add'' \<mapsto> additionHandler, ''deleted'' \<mapsto> removeItem]
     (calc_event ''cart1'' ''valueOf'' 10 :: (int, unit) event_in) stocked) =
     Inr (Table Event_handlers, \<lparr>entity = ''line'', eventType = ''valueOf''\<rparr>) \<and>
   snd (snd (entityEventHandler memoryFactory ''line''
     [''add'' \<mapsto> additionHandler, ''deleted'' \<mapsto> removeItem]
     (calc_event ''cart1'' ''valueOf'' 10 :: (int, unit) event_in) stocked)) =
     [Remove ''line'' ''cart1'']"
  by (simp add: calc_defs stocked_def)

section \<open>Event clusters\<close>

text \<open>
  Claim C7. For a cluster whose first element has a type with a transition \<open>h\<close> in the
  table, the cycle is exactly this, in both versions: the checkout is under the id and with
  the type of the first element; \<open>h\<close> is called with the current entity and the whole
  cluster; a side handler of the table is called with the whole cluster too; what they
  settle on is persisted under the id and with the type of the first element. The elements
  after the first occur nowhere else.
\<close>

theorem cluster_routed_by_first:
  assumes "tbl (eventType (ev_meta e)) = Some h"
  shows "entityEventHandler P c tbl (Cluster e rest) st =
           (case checkout ''new'' P c (ev_id e) (eventType (ev_meta e)) st of
              Inl err \<Rightarrow> (Inl err, st, [])
            | Inr cur \<Rightarrow>
                (case h cur (Cluster e rest) of
                   Inl err \<Rightarrow> (Inl err, st, [])
                 | Inr u \<Rightarrow> persist_step P c (ev_id e) (eventType (ev_meta e)) u st)) \<and>
         entityEventHandler_side P c tbl (Cluster e rest) side st =
           (case checkout ''add'' P c (ev_id e) (eventType (ev_meta e)) st of
              Inl err \<Rightarrow> (Inl err, st, [])
            | Inr cur \<Rightarrow>
                (case h cur (Cluster e rest) of
                   Inl err \<Rightarrow> (Inl err, st, [])
                 | Inr u \<Rightarrow>
                     (case apply_side side (eventType (ev_meta e)) st cur (Cluster e rest)
                             (Entity u) of
                        Inl err \<Rightarrow> (Inl err, st, [])
                      | Inr v \<Rightarrow>
                          persist_value P c (ev_id e) (eventType (ev_meta e))
                            (own_keys tbl side) v st))) \<and>
         (\<forall>stbl s cur u.
            side = Some stbl \<and> stbl (eventType (ev_meta e)) = Some s \<longrightarrow>
            apply_side side (eventType (ev_meta e)) st cur (Cluster e rest) (Entity u) =
              (case s st cur (Cluster e rest) u of
                 Inl err \<Rightarrow> Inl err
               | Inr w \<Rightarrow> Inr (Entity w)))"
  using assms
  by (auto simp add: entityEventHandler_def entityEventHandler_side_def apply_transition_own
        apply_side_def property_of_own split: sum.splits)

theorem cluster_routed_by_first_witness:
  "[''new'' \<mapsto> batchAddition] (eventType (ev_meta
     \<lparr>ev_id = ''test-1'', ev_meta = \<lparr>entity = ''calc'', eventType = ''new''\<rparr>,
      ev_payload = (1::int)\<rparr>)) = Some batchAddition \<and>
   entityEventHandler memoryFactory ''line'' [''new'' \<mapsto> batchAddition]
     (Cluster \<lparr>ev_id = ''test-1'', ev_meta = \<lparr>entity = ''calc'', eventType = ''new''\<rparr>,
               ev_payload = 1\<rparr> [2, 3]) Map.empty =
     (Inr (Entity (calc_entity ''test-1'' 6), \<lparr>entity = ''line'', eventType = ''new''\<rparr>),
      [(''line'', ''test-1'') \<mapsto> calc_entity ''test-1'' 6],
      [Put ''line'' ''test-1'' (calc_entity ''test-1'' 6)]) \<and>
   entityEventHandler memoryFactory ''line'' [''new'' \<mapsto> batchAddition]
     (Single \<lparr>ev_id = ''test-1'', ev_meta = \<lparr>entity = ''calc'', eventType = ''new''\<rparr>,
               ev_payload = 1\<rparr>) Map.empty =
     (Inr (Entity (calc_entity ''test-1'' 1), \<lparr>entity = ''line'', eventType = ''new''\<rparr>),
      [(''line'', ''test-1'') \<mapsto> calc_entity ''test-1'' 1],
      [Put ''line'' ''test-1'' (calc_entity ''test-1'' 1)]) \<and>
   entityEventHandler_side memoryFactory ''line'' [''add'' \<mapsto> batchAddition]
     (Cluster \<lparr>ev_id = ''test-1'', ev_meta = \<lparr>entity = ''calc'', eventType = ''add''\<rparr>,
               ev_payload = 1\<rparr> [2, 3]) (Some [''add'' \<mapsto> stockCheck]) well_stocked =
     (Inr (Entity (calc_entity ''test-1'' 6), \<lparr>entity = ''line'', eventType = ''add''\<rparr>),
      well_stocked((''line'', ''test-1'') \<mapsto> calc_entity ''test-1'' 6),
      [Put ''line'' ''test-1'' (calc_entity ''test-1'' 6)])"
proof -
  let ?e = "\<lparr>ev_id = ''test-1'', ev_meta = \<lparr>entity = ''calc'', eventType = ''new''\<rparr>,
      ev_payload = (1::int)\<rparr>"
  let ?a = "\<lparr>ev_id = ''test-1'', ev_meta = \<lparr>entity = ''calc'', eventType = ''add''\<rparr>,
      ev_payload = (1::int)\<rparr>"
  have a: "[''new'' \<mapsto> batchAddition] (eventType (ev_meta ?e)) = Some batchAddition"
    by simp
  have b: "[''add'' \<mapsto> batchAddition] (eventType (ev_meta ?a)) = Some batchAddition"
    by simp
  have single: "entityEventHandler memoryFactory ''line'' [''new'' \<mapsto> batchAddition]
     (Single ?e) Map.empty =
     (Inr (Entity (calc_entity ''test-1'' 1), \<lparr>entity = ''line'', eventType = ''new''\<rparr>),
      [(''line'', ''test-1'') \<mapsto> calc_entity ''test-1'' 1],
      [Put ''line'' ''test-1'' (calc_entity ''test-1'' 1)])"
    by (simp add: calc_defs)
  show ?thesis
    using cluster_routed_by_first [where tbl = "[''new'' \<mapsto> batchAddition]" and e = ?e
        and h = batchAddition and P = memoryFactory and c = "''line''" and rest = "[2, 3]"
        and st = Map.empty and side = None, OF a, THEN conjunct1]
      cluster_routed_by_first [where tbl = "[''add'' \<mapsto> batchAddition]" and e = ?a
        and h = batchAddition and P = memoryFactory and c = "''line''" and rest = "[2, 3]"
        and st = well_stocked and side = "Some [''add'' \<mapsto> stockCheck]", OF b,
        THEN conjunct2, THEN conjunct1]
      a single
    by (simp add: calc_defs well_stocked_def)
qed

section \<open>Removal\<close>

text \<open>
  Claim C9. When the settled entity \<open>h\<close> is marked deleted, the cycle removes the record
  under the id of the event, whatever the id field of \<open>h\<close> is, absent included; the
  outcome depends on \<open>h\<close> only through the value returned.
\<close>

theorem deleted_removed_by_event_id:
  assumes "deleted h"
  shows "(settle_side P c tbl ev side st = Inr (Entity h) \<longrightarrow>
            entityEventHandler_side P c tbl ev side st =
              (case p_remove P st c (eventId ev) of
                 Inl err \<Rightarrow> (Inl err, st, [])
               | Inr st' \<Rightarrow>
                   (Inr (Entity h, \<lparr>entity = c, eventType = eventType_of ev\<rparr>), st',
                    [Remove c (eventId ev)]))) \<and>
         (settle P c tbl ev st = Inr (Entity h) \<longrightarrow>
            entityEventHandler P c tbl ev st =
              (case p_remove P st c (eventId ev) of
                 Inl err \<Rightarrow> (Inl err, st, [])
               | Inr st' \<Rightarrow>
                   (Inr (Entity h, \<lparr>entity = c, eventType = eventType_of ev\<rparr>), st',
                    [Remove c (eventId ev)])))"
  using assms by (simp add: handler_settle handler_side_settle persist_step_deleted)

theorem deleted_removed_by_event_id_witness:
  "deleted ((calc_entity ''cart2'' 1)\<lparr>deleted := True\<rparr>) \<and>
   settle_side memoryFactory ''line'' [''removeItem'' \<mapsto> removeItem]
     (calc_event ''cart1'' ''removeItem'' 0 :: (int, unit) event_in) None renamed =
     Inr (Entity ((calc_entity ''cart2'' 1)\<lparr>deleted := True\<rparr>)) \<and>
   entityEventHandler_side memoryFactory ''line'' [''removeItem'' \<mapsto> removeItem]
     (calc_event ''cart1'' ''removeItem'' 0 :: (int, unit) event_in) None renamed =
     (Inr (Entity ((calc_entity ''cart2'' 1)\<lparr>deleted := True\<rparr>),
           \<lparr>entity = ''line'', eventType = ''removeItem''\<rparr>),
      [(''line'', ''cart2'') \<mapsto> calc_entity ''cart2'' 5],
      [Remove ''line'' ''cart1'']) \<and>
   settle memoryFactory ''line'' [''new'' \<mapsto> removeItem]
     (calc_event ''cart1'' ''new'' 0 :: (int, unit) event_in) Map.empty =
     Inr (Entity \<lparr>ent_id = None, deleted = True, body = None\<rparr>) \<and>
   entityEventHandler memoryFactory ''line'' [''new'' \<mapsto> removeItem]
     (calc_event ''cart1'' ''new'' 0 :: (int, unit) event_in) Map.empty =
     (Inr (Entity \<lparr>ent_id = None, deleted = True, body = None\<rparr>,
           \<lparr>entity = ''line'', eventType = ''new''\<rparr>),
      Map.empty, [Remove ''line'' ''cart1''])"
proof -
  have d1: "deleted ((calc_entity ''cart2'' 1)\<lparr>deleted := True\<rparr>)" by simp
  have d2: "deleted \<lparr>ent_id = None, deleted = True, body = (None :: int option)\<rparr>" by simp
  have s1: "settle_side memoryFactory ''line'' [''removeItem'' \<mapsto> removeItem]
     (calc_event ''cart1'' ''removeItem'' 0 :: (int, unit) event_in) None renamed =
     Inr (Entity ((calc_entity ''cart2'' 1)\<lparr>deleted := True\<rparr>))"
    by (simp add: calc_defs renamed_def)
  have s2: "settle memoryFactory ''line'' [''new'' \<mapsto> removeItem]
     (calc_event ''cart1'' ''new'' 0 :: (int, unit) event_in) Map.empty =
     Inr (Entity \<lparr>ent_id = None, deleted = True, body = None\<rparr>)"
    by (simp add: calc_defs)
  have r1: "p_remove memoryFactory renamed ''line'' ''cart1'' =
      Inr [(''line'', ''cart2'') \<mapsto> calc_entity ''cart2'' 5]"
    by (auto simp add: calc_defs renamed_def)
  have r2: "p_remove memoryFactory (Map.empty :: int option entity_rec memory) ''line'' ''cart1'' =
      Inr Map.empty"
    by (simp add: calc_defs)
  have i1: "eventId (calc_event ''cart1'' ''removeItem'' 0 :: (int, unit) event_in) = ''cart1''"
    "eventId (calc_event ''cart1'' ''new'' 0 :: (int, unit) event_in) = ''cart1''"
    "eventType_of (calc_event ''cart1'' ''removeItem'' 0 :: (int, unit) event_in) = ''removeItem''"
    "eventType_of (calc_event ''cart1'' ''new'' 0 :: (int, unit) event_in) = ''new''"
    by (simp_all add: calc_event_def)
  show ?thesis
    using deleted_removed_by_event_id [where h = "(calc_entity ''cart2'' 1)\<lparr>deleted := True\<rparr>"
        and P = memoryFactory and c = "''line''" and tbl = "[''removeItem'' \<mapsto> removeItem]"
        and ev = "calc_event ''cart1'' ''removeItem'' 0 :: (int, unit) event_in"
        and side = None and st = renamed, OF d1]
      deleted_removed_by_event_id [where h = "\<lparr>ent_id = None, deleted = True, body = None\<rparr>"
        and P = memoryFactory and c = "''line''" and tbl = "[''new'' \<mapsto> removeItem]"
        and ev = "calc_event ''cart1'' ''new'' 0 :: (int, unit) event_in"
        and side = None and st = Map.empty, OF d2]
      d1 s1 s2
    by (simp add: r1 r2 i1)
qed

section \<open>The deduplication filter: first occurrences\<close>

lemma upt_filter_Suc:
  "filter P [0..<Suc n] = (if P 0 then [0] else []) @ map Suc (filter (\<lambda>k. P (Suc k)) [0..<n])"
proof -
  have "[0..<Suc n] = 0 # map Suc [0..<n]"
    by (simp add: upt_conv_Cons map_Suc_upt del: upt_Suc)
  then show ?thesis
    by (simp add: filter_map comp_def del: upt_Suc)
qed

lemma feed_Cons_fst:
  "fst (feed idf m (x # xs)) =
     (if m (idf x) \<noteq> None then fst (feed idf m xs)
      else x # fst (feed idf (m(idf x \<mapsto> True)) xs))"
  by (simp add: seen_step_def map_has_def split: prod.splits option.splits)

lemma feed_Cons_snd:
  "snd (feed idf m (x # xs)) =
     (if m (idf x) \<noteq> None then snd (feed idf m xs)
      else snd (feed idf (m(idf x \<mapsto> True)) xs))"
  by (simp add: seen_step_def map_has_def split: prod.splits option.splits)

lemma feed_fst:
  "fst (feed idf m xs) =
     map ((!) xs) (filter (\<lambda>k. m (idf (xs ! k)) = None \<and> idf (xs ! k) \<notin> idf ` set (take k xs))
       [0..<length xs])"
proof (induction xs arbitrary: m)
  case Nil
  then show ?case by simp
next
  case (Cons x xs)
  have shift: "map ((!) (x # xs)) (map Suc ks) = map ((!) xs) ks" for ks
    by simp
  show ?case
  proof (cases "m (idf x) = None")
    case True
    have "filter (\<lambda>k. (m(idf x \<mapsto> True)) (idf (xs ! k)) = None \<and>
                idf (xs ! k) \<notin> idf ` set (take k xs)) [0..<length xs] =
          filter (\<lambda>k. m (idf (xs ! k)) = None \<and>
                idf (xs ! k) \<notin> insert (idf x) (idf ` set (take k xs))) [0..<length xs]"
      by (rule filter_cong) auto
    then have "fst (feed idf (m(idf x \<mapsto> True)) xs) =
        map ((!) xs) (filter (\<lambda>k. m (idf (xs ! k)) = None \<and>
                idf (xs ! k) \<notin> insert (idf x) (idf ` set (take k xs))) [0..<length xs])"
      by (simp only: Cons.IH)
    with True show ?thesis
      unfolding feed_Cons_fst length_Cons upt_filter_Suc
      by (simp add: shift del: upt_Suc)
  next
    case False
    have "filter (\<lambda>k. m (idf (xs ! k)) = None \<and>
                idf (xs ! k) \<notin> idf ` set (take k xs)) [0..<length xs] =
          filter (\<lambda>k. m (idf (xs ! k)) = None \<and>
                idf (xs ! k) \<notin> insert (idf x) (idf ` set (take k xs))) [0..<length xs]"
      using False by (intro filter_cong) auto
    then have "fst (feed idf m xs) =
        map ((!) xs) (filter (\<lambda>k. m (idf (xs ! k)) = None \<and>
                idf (xs ! k) \<notin> insert (idf x) (idf ` set (take k xs))) [0..<length xs])"
      by (simp only: Cons.IH)
    with False show ?thesis
      unfolding feed_Cons_fst length_Cons upt_filter_Suc
      by (simp add: shift del: upt_Suc)
  qed
qed

lemma feed_snd:
  "snd (feed idf m xs) k = (if k \<in> idf ` set xs \<and> m k = None then Some True else m k)"
proof (induction xs arbitrary: m)
  case Nil
  then show ?case by simp
next
  case (Cons x xs)
  show ?case
    unfolding feed_Cons_snd by (auto simp add: Cons.IH)
qed

lemma feed_append:
  "feed idf m (xs @ ys) =
     (fst (feed idf m xs) @ fst (feed idf (snd (feed idf m xs)) ys),
      snd (feed idf (snd (feed idf m xs)) ys))"
proof (induction xs arbitrary: m)
  case Nil
  then show ?case by simp
next
  case (Cons x xs)
  define m' where "m' = (if map_has m (idf x) then m else m(idf x \<mapsto> True))"
  have step: "feed idf m (x # zs) =
      ((if map_has m (idf x) then [] else [x]) @ fst (feed idf m' zs), snd (feed idf m' zs))"
    for zs
    by (simp add: seen_step_def m'_def split: prod.splits)
  show ?case
    using Cons.IH [of m'] by (simp add: step del: feed.simps)
qed

text \<open>
  Claim C8. A new instance passes on exactly the values that are the first of the sequence
  to carry their id: the value at position \<open>k\<close> passes if and only if no earlier value
  has its id. The map stays with the instance: of a later batch \<open>ys\<close> sent through the
  instance that has seen \<open>xs\<close>, exactly the values pass whose id is neither in \<open>xs\<close> nor
  earlier in \<open>ys\<close>; sending \<open>xs\<close> and then \<open>ys\<close> is sending \<open>xs @ ys\<close>. Another
  instance starts from the empty map again.
\<close>

theorem first_of_each_id_passes:
  "filterPreviouslySeenIds idf xs =
     map ((!) xs) (filter (\<lambda>k. idf (xs ! k) \<notin> idf ` set (take k xs)) [0..<length xs]) \<and>
   fst (feed idf (snd (feed idf Map.empty xs)) ys) =
     map ((!) ys) (filter (\<lambda>k. idf (ys ! k) \<notin> idf ` set xs \<and>
                               idf (ys ! k) \<notin> idf ` set (take k ys)) [0..<length ys]) \<and>
   feed idf Map.empty (xs @ ys) =
     (fst (feed idf Map.empty xs) @ fst (feed idf (snd (feed idf Map.empty xs)) ys),
      snd (feed idf (snd (feed idf Map.empty xs)) ys))"
proof (intro conjI)
  show "filterPreviouslySeenIds idf xs =
     map ((!) xs) (filter (\<lambda>k. idf (xs ! k) \<notin> idf ` set (take k xs)) [0..<length xs])"
    by (simp add: filterPreviouslySeenIds_def feed_fst)
  have "\<And>k. (snd (feed idf Map.empty xs) k = None) = (k \<notin> idf ` set xs)"
    by (simp add: feed_snd)
  then show "fst (feed idf (snd (feed idf Map.empty xs)) ys) =
     map ((!) ys) (filter (\<lambda>k. idf (ys ! k) \<notin> idf ` set xs \<and>
                               idf (ys ! k) \<notin> idf ` set (take k ys)) [0..<length ys])"
    by (simp add: feed_fst)
  show "feed idf Map.empty (xs @ ys) =
     (fst (feed idf Map.empty xs) @ fst (feed idf (snd (feed idf Map.empty xs)) ys),
      snd (feed idf (snd (feed idf Map.empty xs)) ys))"
    by (rule feed_append)
qed

theorem first_of_each_id_passes_witness:
  "filterPreviouslySeenIds fst [(''a'', 1 :: int), (''b'', 2), (''a'', 3)] = [(''a'', 1), (''b'', 2)] \<and>
   filterPreviouslySeenIds fst [(''a'', 1 :: int), (''a'', 3), (''b'', 2)] = [(''a'', 1), (''b'', 2)] \<and>
   fst (feed fst (snd (feed fst Map.empty [(''a'', 1 :: int), (''b'', 2)])) [(''b'', 4), (''c'', 5)]) =
     [(''c'', 5)] \<and>
   filterPreviouslySeenIds fst [(''b'', 4 :: int), (''c'', 5)] = [(''b'', 4), (''c'', 5)]"
  using first_of_each_id_passes [of fst "[(''a'', 1 :: int), (''b'', 2), (''a'', 3)]" "[]"]
  by (simp add: filterPreviouslySeenIds_def seen_step_def map_has_def)

section \<open>Subjects with a falsy default\<close>

text \<open>
  Claim C10. \<open>subjectFactory\<close> and \<open>eventFactory\<close> emit the default value to a new
  subscriber exactly when the default is truthy; for the falsy defaults \<open>0\<close>, the empty
  string and \<open>false\<close> they build a plain \<open>Subject\<close>, and a subscriber receives nothing
  on subscription.
\<close>

theorem falsy_default_gives_plain_subject:
  "on_subscribe (subjectFactory d) = (if truthy d then [d] else []) \<and>
   on_subscribe (eventFactory m d) = (if truthy d then [d] else []) \<and>
   subjectFactory (JNum 0) = PlainSubject \<and> on_subscribe (subjectFactory (JNum 0)) = [] \<and>
   subjectFactory (JStr []) = PlainSubject \<and> on_subscribe (subjectFactory (JStr [])) = [] \<and>
   subjectFactory (JBool False) = PlainSubject \<and>
   on_subscribe (subjectFactory (JBool False)) = [] \<and>
   eventFactory m (JNum 0) = PlainSubject \<and> eventFactory m (JStr []) = PlainSubject \<and>
   eventFactory m (JBool False) = PlainSubject \<and>
   on_subscribe (subjectFactory (JNum 1)) = [JNum 1]"
  by (simp add: subjectFactory_def eventFactory_def)

section \<open>A sequence of events for one id\<close>

lemma memory_checkout:
  "st (c, x) \<noteq> None \<or> ty = sentinel \<Longrightarrow>
   checkout sentinel memoryFactory c x ty st = Inr (st (c, x))"
  by (auto simp add: checkout_def memoryFactory_def split: option.splits)

lemma persist_step_memory_put:
  "\<not> deleted u \<Longrightarrow> ent_id u = Some x \<Longrightarrow> x \<noteq> [] \<Longrightarrow>
   persist_step memoryFactory c i t u st =
     (Inr (Entity u, \<lparr>entity = c, eventType = t\<rparr>), st((c, x) \<mapsto> u), [Put c x u])"
  by (simp add: persist_step_def memoryFactory_def)

lemma scan_fold:
  "scan_transitions tbl cur events = Inr us \<Longrightarrow>
   fold_transitions tbl cur events = Inr (if us = [] then cur else Some (last us))"
proof (induction events arbitrary: cur us)
  case Nil
  then show ?case by simp
next
  case (Cons e events)
  then show ?case
    by (auto split: option.splits sum.splits)
qed

lemma service_side_run:
  assumes "\<forall>e \<in> set events. eventId e = x"
    and "x \<noteq> []"
    and "scan_transitions tbl (st (c, x)) events = Inr us"
    and "\<forall>u \<in> set us. ent_id u = Some x \<and> \<not> deleted u"
    and "side_accepts side c x st events us"
    and "st (c, x) \<noteq> None \<or> events = [] \<or> eventType_of (hd events) = ''add''"
  shows "entityServiceFactory_side memoryFactory c tbl side events st =
           (settled_at c us events, None,
            (if us = [] then st else st((c, x) \<mapsto> last us)), map (Put c x) us)"
  using assms
proof (induction events arbitrary: st us)
  case Nil
  then show ?case by (simp add: settled_at_def)
next
  case (Cons e events)
  from Cons.prems(3) obtain h u us' where
    h: "tbl (eventType_of e) = Some h" and u: "h (st (c, x)) e = Inr u"
    and rest: "scan_transitions tbl (Some u) events = Inr us'" and us: "us = u # us'"
    by (auto split: option.splits sum.splits)
  from Cons.prems(1) have ex: "eventId e = x"
    by simp
  let ?st' = "st((c, x) \<mapsto> u)"
  from Cons.prems(5) us
  have side: "apply_side side (eventType_of e) st (st (c, x)) e (Entity u) = Inr (Entity u)"
    and acc': "side_accepts side c x ?st' events us'"
    by simp_all
  from Cons.prems(4) us have gu: "ent_id u = Some x" "\<not> deleted u"
    and good': "\<forall>v \<in> set us'. ent_id v = Some x \<and> \<not> deleted v"
    by simp_all
  from Cons.prems(6) have "st (c, x) \<noteq> None \<or> eventType_of e = ''add''"
    by simp
  then have co: "checkout ''add'' memoryFactory c x (eventType_of e) st = Inr (st (c, x))"
    by (rule memory_checkout)
  have cycle: "entityEventHandler_side memoryFactory c tbl e side st =
      (Inr (Entity u, \<lparr>entity = c, eventType = eventType_of e\<rparr>), ?st', [Put c x u])"
    using gu Cons.prems(2)
    by (simp add: entityEventHandler_side_def ex co
          apply_transition_own [where tbl = tbl and name = "eventType_of e", OF h] u side
          persist_step_memory_put)
  have ih: "entityServiceFactory_side memoryFactory c tbl side events ?st' =
      (settled_at c us' events, None,
       (if us' = [] then ?st' else ?st'((c, x) \<mapsto> last us')), map (Put c x) us')"
  proof (rule Cons.IH)
    show "\<forall>e \<in> set events. eventId e = x"
      using Cons.prems(1) by simp
    show "x \<noteq> []" by (rule Cons.prems(2))
    show "scan_transitions tbl (?st' (c, x)) events = Inr us'"
      using rest by simp
    show "\<forall>u \<in> set us'. ent_id u = Some x \<and> \<not> deleted u" by (rule good')
    show "side_accepts side c x ?st' events us'" by (rule acc')
    show "?st' (c, x) \<noteq> None \<or> events = [] \<or> eventType_of (hd events) = ''add''"
      by simp
  qed
  show ?case
    by (auto simp add: cycle ih us settled_at_def fun_eq_iff)
qed

lemma service_run:
  assumes "\<forall>e \<in> set events. eventId e = x"
    and "x \<noteq> []"
    and "scan_transitions (effective_handlers w tbl) (st (c, x)) events = Inr us"
    and "\<forall>u \<in> set us. ent_id u = Some x \<and> \<not> deleted u"
    and "st (c, x) \<noteq> None \<or> events = [] \<or> eventType_of (hd events) = ''new''"
  shows "entityServiceFactory memoryFactory c tbl w events st =
           (settled_at c us events, None,
            (if us = [] then st else st((c, x) \<mapsto> last us)), map (Put c x) us)"
  using assms
proof (induction events arbitrary: st us)
  case Nil
  then show ?case by (simp add: settled_at_def)
next
  case (Cons e events)
  let ?tbl = "effective_handlers w tbl"
  from Cons.prems(3) obtain h u us' where
    h: "?tbl (eventType_of e) = Some h" and u: "h (st (c, x)) e = Inr u"
    and rest: "scan_transitions ?tbl (Some u) events = Inr us'" and us: "us = u # us'"
    by (auto split: option.splits sum.splits)
  from Cons.prems(1) have ex: "eventId e = x"
    by simp
  from Cons.prems(4) us have gu: "ent_id u = Some x" "\<not> deleted u"
    and good': "\<forall>v \<in> set us'. ent_id v = Some x \<and> \<not> deleted v"
    by simp_all
  from Cons.prems(5) have "st (c, x) \<noteq> None \<or> eventType_of e = ''new''"
    by simp
  then have co: "checkout ''new'' memoryFactory c x (eventType_of e) st = Inr (st (c, x))"
    by (rule memory_checkout)
  let ?st' = "st((c, x) \<mapsto> u)"
  have cycle: "entityEventHandler memoryFactory c ?tbl e st =
      (Inr (Entity u, \<lparr>entity = c, eventType = eventType_of e\<rparr>), ?st', [Put c x u])"
    using gu Cons.prems(2)
    by (simp add: entityEventHandler_def ex co
          apply_transition_own [where tbl = ?tbl and name = "eventType_of e", OF h] u
          persist_step_memory_put)
  have ih: "entityServiceFactory memoryFactory c tbl w events ?st' =
      (settled_at c us' events, None,
       (if us' = [] then ?st' else ?st'((c, x) \<mapsto> last us')), map (Put c x) us')"
  proof (rule Cons.IH)
    show "\<forall>e \<in> set events. eventId e = x"
      using Cons.prems(1) by simp
    show "x \<noteq> []" by (rule Cons.prems(2))
    show "scan_transitions ?tbl (?st' (c, x)) events = Inr us'"
      using rest by simp
    show "\<forall>u \<in> set us'. ent_id u = Some x \<and> \<not> deleted u" by (rule good')
    show "?st' (c, x) \<noteq> None \<or> events = [] \<or> eventType_of (hd events) = ''new''"
      by simp
  qed
  have eff: "(case w of None \<Rightarrow> tbl | Some w \<Rightarrow> wrappedEventHandlers w tbl) = ?tbl"
    by (simp add: effective_handlers_def)
  show ?case
    by (auto simp add: eff cycle ih us settled_at_def fun_eq_iff)
qed

text \<open>
  Claim C2, as amended. The store handle has been emitted before the events and is the
  same for all of them, and the store gives back what was last put. For events that all
  carry the non-empty id \<open>x\<close>, whose transitions succeed with entities \<open>us\<close> that are not
  marked deleted and carry the id \<open>x\<close>, whose side step in each cycle gives back the
  updated entity of that cycle as it is (\<open>side_accepts\<close>), and whose first event finds a
  record under \<open>x\<close> or has the creation literal of the version as its type: every cycle
  succeeds, the service emits the entities \<open>us\<close> in order, each cycle puts its entity
  under \<open>x\<close>, and the record under \<open>x\<close> at the end is the left fold of the transitions
  over the events, from the record under \<open>x\<close> at the start (absent on a new store). With
  the additive transition, 1 then 2 settle at 3 and 3 then 4 at 7.
\<close>

theorem service_settles_at_fold:
  assumes "\<forall>e \<in> set events. eventId e = x"
    and "x \<noteq> []"
    and "\<forall>u \<in> set us. ent_id u = Some x \<and> \<not> deleted u"
  shows "(scan_transitions tbl (st (c, x)) events = Inr us \<and>
          side_accepts side c x st events us \<and>
          (st (c, x) \<noteq> None \<or> events = [] \<or> eventType_of (hd events) = ''add'') \<longrightarrow>
            entityServiceFactory_side memoryFactory c tbl side events st =
              (settled_at c us events, None,
               (if us = [] then st else st((c, x) \<mapsto> last us)), map (Put c x) us) \<and>
            fold_transitions tbl (st (c, x)) events =
              Inr ((if us = [] then st else st((c, x) \<mapsto> last us)) (c, x))) \<and>
         (scan_transitions (effective_handlers w tbl) (st (c, x)) events = Inr us \<and>
          (st (c, x) \<noteq> None \<or> events = [] \<or> eventType_of (hd events) = ''new'') \<longrightarrow>
            entityServiceFactory memoryFactory c tbl w events st =
              (settled_at c us events, None,
               (if us = [] then st else st((c, x) \<mapsto> last us)), map (Put c x) us) \<and>
            fold_transitions (effective_handlers w tbl) (st (c, x)) events =
              Inr ((if us = [] then st else st((c, x) \<mapsto> last us)) (c, x)))"
proof (intro conjI impI)
  assume a: "scan_transitions tbl (st (c, x)) events = Inr us \<and>
          side_accepts side c x st events us \<and>
          (st (c, x) \<noteq> None \<or> events = [] \<or> eventType_of (hd events) = ''add'')"
  show "entityServiceFactory_side memoryFactory c tbl side events st =
              (settled_at c us events, None,
               (if us = [] then st else st((c, x) \<mapsto> last us)), map (Put c x) us)"
    using assms a by (intro service_side_run) simp_all
  show "fold_transitions tbl (st (c, x)) events =
              Inr ((if us = [] then st else st((c, x) \<mapsto> last us)) (c, x))"
    using a by (simp add: scan_fold)
next
  assume a: "scan_transitions (effective_handlers w tbl) (st (c, x)) events = Inr us \<and>
          (st (c, x) \<noteq> None \<or> events = [] \<or> eventType_of (hd events) = ''new'')"
  show "entityServiceFactory memoryFactory c tbl w events st =
              (settled_at c us events, None,
               (if us = [] then st else st((c, x) \<mapsto> last us)), map (Put c x) us)"
    using assms a by (intro service_run) simp_all
  show "fold_transitions (effective_handlers w tbl) (st (c, x)) events =
              Inr ((if us = [] then st else st((c, x) \<mapsto> last us)) (c, x))"
    using a by (simp add: scan_fold)
qed

theorem service_settles_at_fold_witness:
  "side_accepts (Some [''add'' \<mapsto> stockCheck]) ''line'' ''test-1'' well_stocked
     [calc_event ''test-1'' ''add'' 3 :: (int, unit) event_in, calc_event ''test-1'' ''add'' 4]
     [calc_entity ''test-1'' 3, calc_entity ''test-1'' 7] \<and>
   scan_transitions (eventHandlers_calc ''add'') None
     [calc_event ''test-1'' ''add'' 3 :: (int, unit) event_in, calc_event ''test-1'' ''add'' 4] =
     Inr [calc_entity ''test-1'' 3, calc_entity ''test-1'' 7] \<and>
   fst (entityServiceFactory_side memoryFactory ''line'' (eventHandlers_calc ''add'')
     (Some [''add'' \<mapsto> stockCheck])
     [calc_event ''test-1'' ''add'' 3 :: (int, unit) event_in, calc_event ''test-1'' ''add'' 4]
     well_stocked) =
     [(Entity (calc_entity ''test-1'' 3), \<lparr>entity = ''line'', eventType = ''add''\<rparr>),
      (Entity (calc_entity ''test-1'' 7), \<lparr>entity = ''line'', eventType = ''add''\<rparr>)] \<and>
   fst (snd (snd (entityServiceFactory_side memoryFactory ''line'' (eventHandlers_calc ''add'')
     (Some [''add'' \<mapsto> stockCheck])
     [calc_event ''test-1'' ''add'' 3 :: (int, unit) event_in, calc_event ''test-1'' ''add'' 4]
     well_stocked))) (''line'', ''test-1'') = Some (calc_entity ''test-1'' 7) \<and>
   fold_transitions (eventHandlers_calc ''add'') None
     [calc_event ''test-1'' ''add'' 3 :: (int, unit) event_in, calc_event ''test-1'' ''add'' 4] =
     Inr (Some (calc_entity ''test-1'' 7)) \<and>
   fst (snd (snd (entityServiceFactory_side memoryFactory ''line'' (eventHandlers_calc ''add'') None
     [calc_event ''x'' ''add'' 1 :: (int, unit) event_in, calc_event ''x'' ''add'' 2]
     Map.empty))) (''line'', ''x'') = Some (calc_entity ''x'' 3) \<and>
   entityServiceFactory memoryFactory ''line'' (eventHandlers_calc ''new'') None
     [calc_event ''test-1'' ''new'' 3 :: (int, unit) event_in, calc_event ''test-1'' ''new'' 4]
     Map.empty =
     ([(Entity (calc_entity ''test-1'' 3), \<lparr>entity = ''line'', eventType = ''new''\<rparr>),
       (Entity (calc_entity ''test-1'' 7), \<lparr>entity = ''line'', eventType = ''new''\<rparr>)], None,
      [(''line'', ''test-1'') \<mapsto> calc_entity ''test-1'' 7],
      [Put ''line'' ''test-1'' (calc_entity ''test-1'' 3),
       Put ''line'' ''test-1'' (calc_entity ''test-1'' 7)])"
proof -
  let ?e34 = "[calc_event ''test-1'' ''add'' 3 :: (int, unit) event_in,
      calc_event ''test-1'' ''add'' 4]"
  let ?e12 = "[calc_event ''x'' ''add'' 1 :: (int, unit) event_in, calc_event ''x'' ''add'' 2]"
  let ?n34 = "[calc_event ''test-1'' ''new'' 3 :: (int, unit) event_in,
      calc_event ''test-1'' ''new'' 4]"
  let ?check = "Some [''add'' \<mapsto> stockCheck] :: (string \<rightharpoonup>
      (int option entity_rec memory, int option, int, unit) side_handler) option"
  let ?none = "None :: (string \<rightharpoonup>
      (int option entity_rec memory, int option, int, unit) side_handler) option"
  let ?st = "Map.empty :: int option entity_rec memory"
  have h34: "\<forall>e \<in> set ?e34. eventId e = ''test-1''"
    and h12: "\<forall>e \<in> set ?e12. eventId e = ''x''"
    and hn34: "\<forall>e \<in> set ?n34. eventId e = ''test-1''"
    by (simp_all add: calc_event_def)
  have n1: "''test-1'' \<noteq> []" and n2: "''x'' \<noteq> []"
    by simp_all
  have g37: "\<forall>u \<in> set [calc_entity ''test-1'' 3, calc_entity ''test-1'' 7].
      ent_id u = Some ''test-1'' \<and> \<not> deleted u"
    by (simp add: calc_entity_def)
  have g13: "\<forall>u \<in> set [calc_entity ''x'' 1, calc_entity ''x'' 3].
      ent_id u = Some ''x'' \<and> \<not> deleted u"
    by (simp add: calc_entity_def)
  have acc: "side_accepts ?check ''line'' ''test-1'' well_stocked ?e34
      [calc_entity ''test-1'' 3, calc_entity ''test-1'' 7]"
    by (simp add: calc_defs well_stocked_def)
  have acc12: "side_accepts ?none ''line'' ''x'' ?st ?e12 [calc_entity ''x'' 1, calc_entity ''x'' 3]"
    by (simp add: apply_side_def)
  have s34: "scan_transitions (eventHandlers_calc ''add'') (well_stocked (''line'', ''test-1''))
      ?e34 = Inr [calc_entity ''test-1'' 3, calc_entity ''test-1'' 7]"
    by (simp add: calc_defs well_stocked_def)
  have s12: "scan_transitions (eventHandlers_calc ''add'') (?st (''line'', ''x'')) ?e12 =
      Inr [calc_entity ''x'' 1, calc_entity ''x'' 3]"
    by (simp add: calc_defs)
  have sn34: "scan_transitions (effective_handlers None (eventHandlers_calc ''new''))
      (?st (''line'', ''test-1'')) ?n34 = Inr [calc_entity ''test-1'' 3, calc_entity ''test-1'' 7]"
    by (simp add: calc_defs effective_handlers_def)
  have t34: "eventType_of (hd ?e34) = ''add''" and t12: "eventType_of (hd ?e12) = ''add''"
    and tn34: "eventType_of (hd ?n34) = ''new''"
    by (simp_all add: calc_event_def)
  note r34 = service_settles_at_fold [OF h34 n1 g37, where st = well_stocked and c = "''line''"
      and tbl = "eventHandlers_calc ''add''" and side = ?check, THEN conjunct1, THEN mp,
      OF conjI [OF s34 conjI [OF acc disjI2 [OF disjI2 [OF t34]]]]]
  note r12 = service_settles_at_fold [OF h12 n2 g13, where st = ?st and c = "''line''"
      and tbl = "eventHandlers_calc ''add''" and side = ?none, THEN conjunct1, THEN mp,
      OF conjI [OF s12 conjI [OF acc12 disjI2 [OF disjI2 [OF t12]]]]]
  note rn34 = service_settles_at_fold [OF hn34 n1 g37, where st = ?st and c = "''line''"
      and tbl = "eventHandlers_calc ''new''" and w = None, THEN conjunct2, THEN mp,
      OF conjI [OF sn34 disjI2 [OF disjI2 [OF tn34]]]]
  have ws: "well_stocked (''line'', ''test-1'') = None"
    by (simp add: well_stocked_def)
  show ?thesis
    using r34 r12 rn34 acc s34
    by (simp add: settled_at_def ws calc_event_def)
qed

text \<open>
  The claim as stated fails. An event whose type is not the creation literal, on an id
  with no record, has a transition in the table and no side handler, yet the cycle ends
  with the fetch error and nothing is persisted, while the fold of the transitions from
  the absent entity is an entity. And a side handler that accepts but transforms the entity
  makes the persisted entity differ from the fold of the transitions.
\<close>

theorem final_equals_fold_counterexample:
  "fold_transitions (eventHandlers_calc ''changePrice'') None
     [calc_event ''test-1'' ''changePrice'' 1 :: (int, unit) event_in] =
     Inr (Some (calc_entity ''test-1'' 1)) \<and>
   entityServiceFactory_side memoryFactory ''line'' (eventHandlers_calc ''changePrice'') None
     [calc_event ''test-1'' ''changePrice'' 1 :: (int, unit) event_in] Map.empty =
     ([], Some NotFound, Map.empty, []) \<and>
   entityServiceFactory memoryFactory ''line'' (eventHandlers_calc ''changePrice'') None
     [calc_event ''test-1'' ''changePrice'' 1 :: (int, unit) event_in] Map.empty =
     ([], Some NotFound, Map.empty, []) \<and>
   fold_transitions (eventHandlers_calc ''add'') None
     [calc_event ''cart9'' ''add'' 10 :: (int, unit) event_in] =
     Inr (Some (calc_entity ''cart9'' 10)) \<and>
   fst (snd (snd (entityServiceFactory_side memoryFactory ''line'' (eventHandlers_calc ''add'')
     (Some [''add'' \<mapsto> capAtStock])
     [calc_event ''cart9'' ''add'' 10 :: (int, unit) event_in] stocked))) (''line'', ''cart9'') =
     Some (calc_entity ''cart9'' 2)"
  by (simp add: calc_defs capAtStock_def stocked_def)

end
